theory Spec2Isabelle
  imports Main "HOL-Library.Sublist"
begin

section \<open>The deployment script deploy.py of cwv_in_ga4\<close>

text \<open>
  The script talks to two cloud services (the Compute regions listing and the BigQuery
  Data Transfer service), reads the process environment and standard input, and prints
  to standard output. All of that is made explicit: every function of the script takes
  a \<open>world\<close> and returns its result together with the world it leaves behind. A raised
  exception is the left summand of the result; the world returned with it is the world
  at the moment of the raise. Python \<open>str\<close> values are lists of 8-bit characters, which
  fits ASCII text; the character classes of \<open>str.strip\<close> and \<open>str.isdigit\<close> are
  their ASCII members.
\<close>

subsection \<open>Exceptions\<close>

datatype error =
    GoogleAPICallError string
  | NotFound string
  | DefaultCredentialsError
  | TypeError string
  | KeyError string
  | EOFError
  | SystemExit string

subsection \<open>Cloud resources and API calls\<close>

text \<open>
  A transfer config as \<open>bigquery_datatransfer.TransferConfig\<close> carries it: the
  resource name (assigned by the service), the display name, the data source id, the
  \<open>params\<close> dictionary and the schedule.
\<close>

record transfer_config =
  name :: string
  display_name :: string
  data_source_id :: string
  params :: "(string \<times> string) list"
  schedule :: string

text \<open>
  A request built by \<open>service.regions().list(...)\<close>: the keyword arguments the script
  passes, each absent (\<open>None\<close>) when the script does not pass it.
\<close>

record regions_request =
  rq_project :: "string option"
  rq_pageToken :: "string option"

text \<open>
  One page of the regions listing: the dictionary the request's \<open>execute()\<close> returns.
  A region is itself a dictionary of string fields; \<open>items\<close> and \<open>nextPageToken\<close> are
  the two keys the script reads, each possibly absent.
\<close>

type_synonym region = "(string \<times> string) list"

record regions_response =
  items :: "region list option"
  nextPageToken :: "string option"

datatype api_call =
    RegionsList regions_request
  | ListTransferConfigs string "string list"
  | DeleteTransferConfig string
  | CreateTransferConfig string transfer_config

text \<open>
  What the script does that is visible from outside: a cloud API call, a lookup in the
  process environment, a prompt answered by a line of standard input, a prompt met by the
  end of standard input, and a line printed.
\<close>

datatype event =
    ApiCall api_call
  | EnvLookup string
  | Input string string
  | InputEOF string
  | Print string

type_synonym credentials = string

subsection \<open>The world the script runs in\<close>

text \<open>
  \<^item> \<open>stdin\<close>: the lines still to be read from standard input;
  \<^item> \<open>environ\<close>: the process environment, \<open>os.environ\<close>;
  \<^item> \<open>auth_default\<close>: what \<open>google.auth.default()\<close> returns or raises;
  \<^item> \<open>regions_pages\<close>: the scripted answers of the regions listing, one per executed
    request, each a page or an API error;
  \<^item> \<open>configs\<close>: the transfer configs the Data Transfer service stores, each under its
    parent location \<open>projects/P/locations/R\<close>;
  \<^item> \<open>fault\<close>: the Data Transfer calls that fail, and with which error;
  \<^item> \<open>next_id\<close>: the id the service gives the next config it creates;
  \<^item> \<open>trace\<close>: everything the script did so far that is visible from outside, in order.
\<close>

record world =
  stdin :: "string list"
  environ :: "(string \<times> string) list"
  auth_default :: "error + (credentials \<times> string option)"
  regions_pages :: "(error + regions_response) list"
  configs :: "(string \<times> transfer_config) list"
  fault :: "api_call \<Rightarrow> error option"
  next_id :: nat
  trace :: "event list"

definition emit :: "event \<Rightarrow> world \<Rightarrow> world" where
  "emit ev w = w\<lparr>trace := trace w @ [ev]\<rparr>"

subsection \<open>The BigQuery Data Transfer service\<close>

text \<open>
  The client library is not part of the repository; these definitions are the service
  as its API documents it. \<open>common_location_path\<close> formats the parent of a location.
  \<open>list_transfer_configs\<close> returns the configs stored under the parent whose data
  source is one of the requested ones (all of them when none is requested); the script
  iterates the returned pager once, which is modelled as the list of its elements.
  \<open>delete_transfer_config\<close> removes the config of the given resource name and raises
  \<open>NotFound\<close> when there is none. \<open>create_transfer_config\<close> stores the config under
  the parent with a resource name of the service's choosing. Each call is recorded in
  the trace before it is answered, and fails with the error \<open>fault\<close> gives it, if any.
\<close>

definition common_location_path :: "string \<Rightarrow> string \<Rightarrow> string" where
  "common_location_path project location =
     ''projects/'' @ project @ ''/locations/'' @ location"

definition list_transfer_configs ::
  "string \<Rightarrow> string list \<Rightarrow> world \<Rightarrow> (error + transfer_config list) \<times> world" where
  "list_transfer_configs parent data_source_ids w =
     (let call = ListTransferConfigs parent data_source_ids; w1 = emit (ApiCall call) w
      in case fault w call of
           Some e \<Rightarrow> (Inl e, w1)
         | None \<Rightarrow>
             (Inr (map snd (filter (\<lambda>pc. fst pc = parent \<and>
                       (data_source_ids = [] \<or> data_source_id (snd pc) \<in> set data_source_ids))
                     (configs w))), w1))"

definition delete_transfer_config :: "string \<Rightarrow> world \<Rightarrow> (error + unit) \<times> world" where
  "delete_transfer_config n w =
     (let call = DeleteTransferConfig n; w1 = emit (ApiCall call) w
      in case fault w call of
           Some e \<Rightarrow> (Inl e, w1)
         | None \<Rightarrow>
             if n \<in> set (map (name \<circ> snd) (configs w))
             then (Inr (), w1\<lparr>configs := filter (\<lambda>pc. name (snd pc) \<noteq> n) (configs w)\<rparr>)
             else (Inl (NotFound n), w1))"

definition digit_char :: "nat \<Rightarrow> char" where
  "digit_char d = ''0123456789'' ! (d mod 10)"

fun string_of_nat :: "nat \<Rightarrow> string" where
  "string_of_nat n =
     (if n div 10 = 0 then [digit_char n]
      else string_of_nat (n div 10) @ [digit_char n])"

declare string_of_nat.simps [simp del]

definition create_transfer_config ::
  "string \<Rightarrow> transfer_config \<Rightarrow> world \<Rightarrow> (error + transfer_config) \<times> world" where
  "create_transfer_config parent cfg w =
     (let call = CreateTransferConfig parent cfg; w1 = emit (ApiCall call) w
      in case fault w call of
           Some e \<Rightarrow> (Inl e, w1)
         | None \<Rightarrow>
             (let created = cfg\<lparr>name := parent @ ''/transferConfigs/'' @ string_of_nat (next_id w)\<rparr>
              in (Inr created,
                  w1\<lparr>configs := configs w @ [(parent, created)], next_id := Suc (next_id w)\<rparr>)))"

subsection \<open>delete_scheduled_query (deploy.py, lines 54-75)\<close>

text \<open>The \<open>for config in configs\<close> loop of lines 73-75.\<close>

fun delete_matching :: "string \<Rightarrow> transfer_config list \<Rightarrow> world \<Rightarrow> (error + unit) \<times> world" where
  "delete_matching display_name' [] w = (Inr (), w)"
| "delete_matching display_name' (config # rest) w =
     (if display_name config = display_name'
      then (case delete_transfer_config (name config) w of
              (Inl e, w1) \<Rightarrow> (Inl e, w1)
            | (Inr u, w1) \<Rightarrow> delete_matching display_name' rest w1)
      else delete_matching display_name' rest w)"

definition delete_scheduled_query ::
  "string \<Rightarrow> string \<Rightarrow> string \<Rightarrow> world \<Rightarrow> (error + unit) \<times> world" where
  "delete_scheduled_query display_name' project_id region w =
     (let parent = common_location_path project_id region
      in case list_transfer_configs parent [''scheduled_query''] w of
           (Inl e, w1) \<Rightarrow> (Inl e, w1)
         | (Inr cfgs, w1) \<Rightarrow> delete_matching display_name' cfgs w1)"

subsection \<open>Python strings\<close>

text \<open>
  \<open>'\n'.join(lines)\<close>; \<open>s.strip()\<close>; \<open>s.isdigit()\<close>; \<open>str(i)\<close> of an integer, which is
  also how an f-string formats it.
\<close>

fun join_lines :: "string list \<Rightarrow> string" where
  "join_lines [] = []"
| "join_lines [l] = l"
| "join_lines (l # m # ls) = l @ CHR 0x0A # join_lines (m # ls)"

definition is_space :: "char \<Rightarrow> bool" where
  "is_space c = (c \<in> set [CHR 0x09, CHR 0x0A, CHR 0x0B, CHR 0x0C, CHR 0x0D,
                            CHR 0x1C, CHR 0x1D, CHR 0x1E, CHR 0x1F, CHR 0x20])"

definition strip :: "string \<Rightarrow> string" where
  "strip s = rev (dropWhile is_space (rev (dropWhile is_space s)))"

definition isdigit :: "string \<Rightarrow> bool" where
  "isdigit s = (s \<noteq> [] \<and> list_all (\<lambda>c. c \<in> set ''0123456789'') s)"

definition str_of_int :: "int \<Rightarrow> string" where
  "str_of_int i = (if i < 0 then CHR ''-'' # string_of_nat (nat (- i)) else string_of_nat (nat i))"

subsection \<open>The Compute regions listing\<close>

text \<open>
  The discovery client is not part of the repository. \<open>regions_list\<close> is
  \<open>service.regions().list(**kwargs)\<close>: the method \<open>compute.regions.list\<close> declares
  \<open>project\<close> a required (path) parameter, and the client raises \<open>TypeError\<close> when a
  required parameter is not among the keyword arguments. \<open>execute\<close> sends a request and
  returns the next scripted answer.
\<close>

definition regions_list :: "string option \<Rightarrow> string option \<Rightarrow> error + regions_request" where
  "regions_list project pageToken =
     (case project of
        None \<Rightarrow> Inl (TypeError ''Missing required parameter \"project\"'')
      | Some p \<Rightarrow> Inr \<lparr>rq_project = Some p, rq_pageToken = pageToken\<rparr>)"

definition execute :: "regions_request \<Rightarrow> world \<Rightarrow> (error + regions_response) \<times> world" where
  "execute request w =
     (let w1 = emit (ApiCall (RegionsList request)) w
      in case regions_pages w of
           [] \<Rightarrow> (Inl (GoogleAPICallError ''no response''), w1)
         | answer # rest \<Rightarrow> (answer, w1\<lparr>regions_pages := rest\<rparr>))"

subsection \<open>get_gcp_regions (deploy.py, lines 27-51)\<close>

text \<open>The \<open>for region in response['items']\<close> loop of lines 42-44.\<close>

fun append_names :: "string list \<Rightarrow> region list \<Rightarrow> string list" where
  "append_names regions [] = regions"
| "append_names regions (region # rest) =
     (case map_of region ''name'' of
        Some n \<Rightarrow> if n \<noteq> [] then append_names (regions @ [n]) rest
                  else append_names regions rest
      | None \<Rightarrow> append_names regions rest)"

text \<open>
  The \<open>while request is not None\<close> loop of lines 40-49, entered with a request: one
  page is fetched per round, \<open>response['items']\<close> raises \<open>KeyError\<close> when the key is
  absent, and the follow-up request of line 47 is built from the page token alone.
\<close>

function regions_loop ::
  "regions_request \<Rightarrow> string list \<Rightarrow> world \<Rightarrow> (error + string list) \<times> world" where
  "regions_loop request regions w =
     (case execute request w of
        (Inl e, w1) \<Rightarrow> (Inl e, w1)
      | (Inr response, w1) \<Rightarrow>
          (case items response of
             None \<Rightarrow> (Inl (KeyError ''items''), w1)
           | Some its \<Rightarrow>
               (case nextPageToken response of
                  Some token \<Rightarrow>
                    (case regions_list None (Some token) of
                       Inl e \<Rightarrow> (Inl e, w1)
                     | Inr request1 \<Rightarrow> regions_loop request1 (append_names regions its) w1)
                | None \<Rightarrow> (Inr (append_names regions its), w1))))"
  by pat_completeness auto
termination
  by (relation "measure (\<lambda>(request, regions, w). length (regions_pages w))")
     (auto simp: execute_def Let_def split: list.splits)

declare regions_loop.simps [simp del]

definition get_gcp_regions :: "credentials \<Rightarrow> string \<Rightarrow> world \<Rightarrow> (error + string list) \<times> world" where
  "get_gcp_regions creds project_id w =
     (case regions_list (Some project_id) None of
        Inl e \<Rightarrow> (Inl e, w)
      | Inr request \<Rightarrow> regions_loop request [] w)"

subsection \<open>deploy_scheduled_materialize_query (deploy.py, lines 78-234)\<close>

text \<open>
  The f-string of lines 95-212 is a multi-line literal with two replacement fields on
  each of two lines. It is written here line by line: the text is the lines joined by
  newlines, from the empty rest of line 95 to the two blanks before the closing quotes
  on line 212.
\<close>

definition sql_head :: "string list" where
  "sql_head =
    [[],
     ''-- Copyright 2021 Google LLC'',
     ''-- Licensed under the Apache License, Version 2.0 (the \"License\");'',
     ''-- you may not use this file except in compliance with the License.'',
     ''-- You may obtain a copy of the License at'',
     [],
     ''--     https://www.apache.org/licenses/LICENSE-2.0'',
     [],
     ''-- Unless required by applicable law or agreed to in writing, software'',
     ''-- distributed under the License is distributed on an \"AS IS\" BASIS,'',
     ''-- WITHOUT WARRANTIES OR CONDITIONS OF ANY KIND, either express or implied.'',
     ''-- See the License for the specific language governing permissions and'',
     ''-- limitations under the License.'',
     [],
     ''-- Materialize Web Vitals metrics from GA4 event export data'',
     []]"

definition sql_middle :: "string list" where
  "sql_middle =
    [''  PARTITION BY DATE(event_timestamp)'',
     ''  CLUSTER BY metric_name'',
     ''AS'',
     ''SELECT'',
     ''  ga_session_id,'',
     ''  IF('',
     ''    EXISTS('',
     ''      SELECT 1'',
     ''      FROM UNNEST(events) AS e'',
     ''      WHERE e.event_name = 'first_visit'' @ [CHR 0x27],
     ''    ),'',
     ''    'New user','',
     ''    'Returning user') AS user_type,'',
     ''  IF('',
     ''    (SELECT MAX(session_engaged) FROM UNNEST(events)) > 0, 'Engaged', 'Not engaged')'',
     ''    AS session_engagement,'',
     ''  evt.* EXCEPT (session_engaged, event_name),'',
     ''  event_name AS metric_name,'',
     ''  FORMAT_TIMESTAMP('%Y%m%d', event_timestamp) AS event_date'',
     ''FROM'',
     ''  ('',
     ''    SELECT'',
     ''      ga_session_id,'',
     ''      ARRAY_AGG(custom_event) AS events'',
     ''    FROM'',
     ''      ('',
     ''        SELECT'',
     ''          ga_session_id,'',
     ''          STRUCT('',
     ''            country,'',
     ''            device_category,'',
     ''            device_os,'',
     ''            traffic_medium,'',
     ''            traffic_name,'',
     ''            traffic_source,'',
     ''            page_path,'',
     ''            debug_target,'',
     ''            event_timestamp,'',
     ''            event_name,'',
     ''            metric_id,'',
     ''            IF(event_name = 'LCP', metric_value / 1000, metric_value)'',
     ''              AS metric_value,'',
     ''            user_pseudo_id,'',
     ''            session_engaged,'',
     ''            session_revenue) AS custom_event'',
     ''        FROM'',
     ''          ('',
     ''            SELECT'',
     ''              (SELECT value.int_value FROM UNNEST(event_params) WHERE key = 'ga_session_id')'',
     ''                AS ga_session_id,'',
     ''              (SELECT value.string_value FROM UNNEST(event_params) WHERE key = 'metric_id')'',
     ''                AS metric_id,'',
     ''              ANY_VALUE(device.category) AS device_category,'',
     ''              ANY_VALUE(device.operating_system) AS device_os,'',
     ''              ANY_VALUE(traffic_source.medium) AS traffic_medium,'',
     ''              ANY_VALUE(traffic_source.name) AS traffic_name,'',
     ''              ANY_VALUE(traffic_source.source) AS traffic_source,'',
     ''              ANY_VALUE('',
     ''                REGEXP_SUBSTR('',
     ''                  (SELECT value.string_value FROM UNNEST(event_params) WHERE key = 'page_location'),'',
     ''                  r'^[^?]+')) AS page_path,'',
     ''              ANY_VALUE('',
     ''                (SELECT value.string_value FROM UNNEST(event_params) WHERE key = 'debug_target'))'',
     ''                AS debug_target,'',
     ''              ANY_VALUE(user_pseudo_id) AS user_pseudo_id,'',
     ''              ANY_VALUE(geo.country) AS country,'',
     ''              ANY_VALUE(event_name) AS event_name,'',
     ''              SUM(ecommerce.purchase_revenue) AS session_revenue,'',
     ''              MAX('',
     ''                ('',
     ''                  SELECT'',
     ''                    COALESCE('',
     ''                      value.double_value,'',
     ''                      value.int_value,'',
     ''                      CAST(value.string_value AS NUMERIC))'',
     ''                  FROM UNNEST(event_params)'',
     ''                  WHERE key = 'session_engaged'' @ [CHR 0x27],
     ''                )) AS session_engaged,'',
     ''              TIMESTAMP_MICROS(MAX(event_timestamp)) AS event_timestamp,'',
     ''              MAX('',
     ''                ('',
     ''                  SELECT COALESCE(value.double_value, value.int_value)'',
     ''                  FROM UNNEST(event_params)'',
     ''                  WHERE key = 'metric_value'' @ [CHR 0x27],
     ''                )) AS metric_value,'',
     ''            FROM'',
     ''              # Replace source table name'']"

definition sql_tail :: "string list" where
  "sql_tail =
    [''            WHERE'',
     ''              event_name IN ('LCP', 'FID', 'CLS', 'first_visit', 'purchase')'',
     ''            GROUP BY'',
     ''              1, 2'',
     ''          )'',
     ''      )'',
     ''    WHERE'',
     ''      ga_session_id IS NOT NULL'',
     ''    GROUP BY ga_session_id'',
     ''  )'',
     ''CROSS JOIN UNNEST(events) AS evt'',
     ''WHERE evt.event_name NOT IN ('first_visit', 'purchase');'',
     ''  '']"

datatype ga_value = GaInt int | GaStr string

fun format_ga :: "ga_value \<Rightarrow> string" where
  "format_ga (GaInt i) = str_of_int i"
| "format_ga (GaStr s) = s"

definition materialize_query :: "string \<Rightarrow> ga_value \<Rightarrow> string" where
  "materialize_query project_id ga_property =
     join_lines
       (sql_head @
        [''CREATE OR REPLACE TABLE `'' @ project_id @ ''.analytics_'' @ format_ga ga_property @
           ''.web_vitals_summary`''] @
        sql_middle @
        [''              `'' @ project_id @ ''.analytics_'' @ format_ga ga_property @
           ''.events_*`''] @
        sql_tail)"

definition deploy_scheduled_materialize_query ::
  "string \<Rightarrow> string \<Rightarrow> ga_value \<Rightarrow> world \<Rightarrow> (error + unit) \<times> world" where
  "deploy_scheduled_materialize_query project_id region ga_property w =
     (let display_name' = ''Update Web Vitals Summary''
      in case delete_scheduled_query display_name' project_id region w of
           (Inl e, w1) \<Rightarrow> (Inl e, w1)
         | (Inr u, w1) \<Rightarrow>
             (let parent = common_location_path project_id region;
                  transfer_config =
                    \<lparr>name = [], display_name = display_name',
                     data_source_id = ''scheduled_query'',
                     params = [(''query'', materialize_query project_id ga_property)],
                     schedule = ''every 24 hours''\<rparr>
              in case create_transfer_config parent transfer_config w1 of
                   (Inl e, w2) \<Rightarrow> (Inl e, w2)
                 | (Inr created, w2) \<Rightarrow> (Inr (), w2)))"

subsection \<open>main (deploy.py, lines 249-326)\<close>

text \<open>
  The parsed command line, as far as \<open>main\<close> reads it: \<open>--ga-property\<close> is an
  \<open>int\<close>, the others are strings, and each is \<open>None\<close> when the flag is not given. The
  three thresholds are parsed and never read.
\<close>

record args =
  arg_ga_property :: "int option"
  arg_region :: "string option"
  arg_email_server :: "string option"
  arg_email_user :: "string option"
  arg_email_password :: "string option"
  arg_alert_recipients :: "string option"

text \<open>
  \<open>input(prompt)\<close> reads the next line of standard input and raises \<open>EOFError\<close> at its
  end; \<open>print\<close> writes a line; \<open>os.environ[key]\<close> raises \<open>KeyError\<close> for a missing key.
  \<open>and_then\<close> runs one step after another and stops at the first exception.
\<close>

definition py_input :: "string \<Rightarrow> world \<Rightarrow> (error + string) \<times> world" where
  "py_input prompt w =
     (case stdin w of
        [] \<Rightarrow> (Inl EOFError, emit (InputEOF prompt) w)
      | line # rest \<Rightarrow> (Inr line, (emit (Input prompt line) w)\<lparr>stdin := rest\<rparr>))"

definition py_print :: "string \<Rightarrow> world \<Rightarrow> world" where
  "py_print s w = emit (Print s) w"

definition environ_get :: "string \<Rightarrow> world \<Rightarrow> (error + string) \<times> world" where
  "environ_get key w =
     (case map_of (environ w) key of
        None \<Rightarrow> (Inl (KeyError key), emit (EnvLookup key) w)
      | Some v \<Rightarrow> (Inr v, emit (EnvLookup key) w))"

definition and_then ::
  "(world \<Rightarrow> (error + 'a) \<times> world) \<Rightarrow> ('a \<Rightarrow> world \<Rightarrow> (error + 'b) \<times> world) \<Rightarrow>
   world \<Rightarrow> (error + 'b) \<times> world" where
  "and_then m f w = (case m w of (Inl e, w1) \<Rightarrow> (Inl e, w1) | (Inr x, w1) \<Rightarrow> f x w1)"

text \<open>
  The \<open>while args.region == 'list'\<close> loop of lines 293-298. Every round reads one line of
  standard input, and the regions listing leaves standard input alone, so the loop ends.
\<close>

function region_list_loop ::
  "credentials \<Rightarrow> string \<Rightarrow> string \<Rightarrow> world \<Rightarrow> (error + string) \<times> world" where
  "region_list_loop creds project_id region w =
     (if region = ''list''
      then (case get_gcp_regions creds project_id w of
              (Inl e, w1) \<Rightarrow> (Inl e, w1)
            | (Inr region_list, w1) \<Rightarrow>
                (case py_input ''Which region is the GA export in (list for a list of regions)? ''
                        (py_print (join_lines region_list) w1) of
                   (Inl e, w2) \<Rightarrow> (Inl e, w2)
                 | (Inr line, w2) \<Rightarrow> region_list_loop creds project_id (strip line) w2))
      else (Inr region, w))"
  by pat_completeness auto

lemma execute_stdin: "execute request w = (r, w') \<Longrightarrow> stdin w' = stdin w"
  by (auto simp: execute_def Let_def emit_def split: list.splits)

lemma regions_loop_stdin: "regions_loop request regions w = (r, w') \<Longrightarrow> stdin w' = stdin w"
proof (induction request regions w rule: regions_loop.induct)
  case (1 request regions w)
  obtain a w1 where ex: "execute request w = (a, w1)" by (cases "execute request w")
  note s1 = execute_stdin[OF ex]
  from "1.prems" ex s1 show ?case
    by (subst (asm) regions_loop.simps)
       (auto simp: regions_list_def split: sum.splits option.splits)
qed

lemma get_gcp_regions_stdin: "get_gcp_regions creds project_id w = (r, w') \<Longrightarrow> stdin w' = stdin w"
  by (auto simp: get_gcp_regions_def regions_list_def dest: regions_loop_stdin)

termination region_list_loop
  apply (relation "measure (\<lambda>(creds, project_id, region, w). length (stdin w))")
   apply simp
  apply (auto simp: py_input_def py_print_def emit_def split: list.splits
              dest!: get_gcp_regions_stdin[OF sym])
  done

declare region_list_loop.simps [simp del]

text \<open>Lines 286-288: the credentials and the project id.\<close>

definition resolve_project_id :: "world \<Rightarrow> (error + credentials \<times> string) \<times> world" where
  "resolve_project_id w =
     (case auth_default w of
        Inl e \<Rightarrow> (Inl e, w)
      | Inr (creds, project_id) \<Rightarrow>
          if project_id = None \<or> project_id = Some []
          then (case environ_get ''GOOGLE_CLOUD_PROJECT'' w of
                  (Inl e, w1) \<Rightarrow> (Inl e, w1)
                | (Inr v, w1) \<Rightarrow> (Inr (creds, v), w1))
          else (case project_id of
                  Some p \<Rightarrow> (Inr (creds, p), w)
                | None \<Rightarrow> (Inr (creds, []), w)))"

text \<open>
  Lines 290-298, 299-304 and 306-321: each value is asked for when its flag is falsy
  (\<open>None\<close>, the empty string, or the integer 0).
\<close>

definition ask_region :: "credentials \<Rightarrow> string \<Rightarrow> args \<Rightarrow> world \<Rightarrow> (error + string) \<times> world" where
  "ask_region creds project_id args w =
     (let ask =
        (case py_input ''Which region should be deployed to (type list for a list)? '' w of
           (Inl e, w1) \<Rightarrow> (Inl e, w1)
         | (Inr line, w1) \<Rightarrow> region_list_loop creds project_id (strip line) w1)
      in case arg_region args of
           None \<Rightarrow> ask
         | Some region \<Rightarrow> if region = [] then ask else (Inr region, w))"

definition ask_ga_property :: "args \<Rightarrow> world \<Rightarrow> (error + ga_value) \<times> world" where
  "ask_ga_property args w =
     (let ask =
        (case py_input ''Please enter the GA property ID you are collecting CWV data with: '' w of
           (Inl e, w1) \<Rightarrow> (Inl e, w1)
         | (Inr line, w1) \<Rightarrow>
             if \<not> isdigit (strip line)
             then (Inl (SystemExit ''Only GA4 properties are supported at this time.''), w1)
             else (Inr (GaStr (strip line)), w1))
      in case arg_ga_property args of
           None \<Rightarrow> ask
         | Some i \<Rightarrow> if i = 0 then ask else (Inr (GaInt i), w))"

definition ask_if_unset :: "string option \<Rightarrow> string \<Rightarrow> world \<Rightarrow> (error + string) \<times> world" where
  "ask_if_unset given prompt w =
     (let ask =
        (case py_input prompt w of
           (Inl e, w1) \<Rightarrow> (Inl e, w1)
         | (Inr line, w1) \<Rightarrow> (Inr (strip line), w1))
      in case given of
           None \<Rightarrow> ask
         | Some v \<Rightarrow> if v = [] then ask else (Inr v, w))"

text \<open>Lines 237-246: the three stubs, and lines 323-326, which call them after the deployment.\<close>

definition deploy_p75_procedure :: "world \<Rightarrow> world" where
  "deploy_p75_procedure w = w"

definition deploy_cloudrun_alerter :: "world \<Rightarrow> world" where
  "deploy_cloudrun_alerter w = w"

definition create_cloudrun_trigger :: "world \<Rightarrow> world" where
  "create_cloudrun_trigger w = w"

definition deploy_all :: "string \<Rightarrow> string \<Rightarrow> ga_value \<Rightarrow> world \<Rightarrow> (error + unit) \<times> world" where
  "deploy_all project_id region ga_property w =
     (case deploy_scheduled_materialize_query project_id region ga_property w of
        (Inl e, w1) \<Rightarrow> (Inl e, w1)
      | (Inr u, w1) \<Rightarrow>
          (Inr (), create_cloudrun_trigger (deploy_cloudrun_alerter (deploy_p75_procedure w1))))"

text \<open>Lines 290-326, with the credentials and the project id of lines 286-288 in hand.\<close>

definition main_with_project ::
  "credentials \<Rightarrow> string \<Rightarrow> args \<Rightarrow> world \<Rightarrow> (error + unit) \<times> world" where
  "main_with_project creds project_id args =
     and_then (ask_region creds project_id args) (\<lambda>region.
     and_then (ask_ga_property args) (\<lambda>ga_property.
     and_then (ask_if_unset (arg_email_server args)
       ''Please enter the address of the email server to use to send alerts: '') (\<lambda>email_server.
     and_then (ask_if_unset (arg_email_user args)
       ''Please enter the username for authenticating with the email server: '') (\<lambda>email_user.
     and_then (ask_if_unset (arg_email_password args)
       ''Please enter the password for authenticating with the email server: '') (\<lambda>email_password.
     and_then (ask_if_unset (arg_alert_recipients args)
       ''Please enter a comma-separated list of email addresses to send the alerts to: '')
       (\<lambda>alert_recipients.
     deploy_all project_id region ga_property))))))"

definition main :: "args \<Rightarrow> world \<Rightarrow> (error + unit) \<times> world" where
  "main args =
     and_then resolve_project_id (\<lambda>(creds, project_id). main_with_project creds project_id args)"

section \<open>Properties\<close>

subsection \<open>States and examples\<close>

text \<open>
  \<open>scheduled_named parent dn\<close> holds of a stored config that lies under \<open>parent\<close>, belongs
  to the data source \<open>scheduled_query\<close> and has the display name \<open>dn\<close>. Resource names
  identify configs, so in every state of the service they are pairwise different:
  \<open>unique_names\<close>.
\<close>

definition scheduled_named :: "string \<Rightarrow> string \<Rightarrow> string \<times> transfer_config \<Rightarrow> bool" where
  "scheduled_named parent dn pc =
     (fst pc = parent \<and> data_source_id (snd pc) = ''scheduled_query'' \<and> display_name (snd pc) = dn)"

definition unique_names :: "world \<Rightarrow> bool" where
  "unique_names w = distinct (map (name \<circ> snd) (configs w))"

definition stored :: "string \<Rightarrow> string \<Rightarrow> string \<Rightarrow> transfer_config" where
  "stored n dn ds =
     \<lparr>name = n, display_name = dn, data_source_id = ds, params = [], schedule = ''every 24 hours''\<rparr>"

text \<open>
  The transfer config \<open>deploy_scheduled_materialize_query\<close> builds in lines 220-227, and
  the display name of line 93.
\<close>

definition requested_config :: "string \<Rightarrow> ga_value \<Rightarrow> transfer_config" where
  "requested_config project_id ga_property =
     \<lparr>name = [], display_name = ''Update Web Vitals Summary'',
      data_source_id = ''scheduled_query'',
      params = [(''query'', materialize_query project_id ga_property)],
      schedule = ''every 24 hours''\<rparr>"

text \<open>
  A project with five transfer configs: three scheduled queries of the location \<open>eu\<close>
  (two of them named alike), one config of another data source and one scheduled query of
  another location, both with the same display name.
\<close>

definition example_world :: world where
  "example_world =
     \<lparr>stdin = [], environ = [], auth_default = Inr (''token'', Some ''proj''),
      regions_pages = [],
      configs =
        [(''projects/proj/locations/eu'', stored ''c1'' ''Update Web Vitals Summary'' ''scheduled_query''),
         (''projects/proj/locations/eu'', stored ''c2'' ''Update Web Vitals'' ''scheduled_query''),
         (''projects/proj/locations/eu'', stored ''c3'' ''Update Web Vitals Summary'' ''google_ads''),
         (''projects/proj/locations/us'', stored ''c4'' ''Update Web Vitals Summary'' ''scheduled_query''),
         (''projects/proj/locations/eu'', stored ''c5'' ''Update Web Vitals Summary'' ''scheduled_query'')],
      fault = (\<lambda>c. None), next_id = 6, trace = []\<rparr>"

text \<open>The same project when the service refuses every create request.\<close>

definition example_world_no_create :: world where
  "example_world_no_create =
     example_world\<lparr>fault := (\<lambda>c. case c of
        CreateTransferConfig parent cfg \<Rightarrow> Some (GoogleAPICallError ''quota exceeded'')
      | _ \<Rightarrow> None)\<rparr>"






definition two_page_world :: world where
  "two_page_world =
     example_world\<lparr>regions_pages :=
       [Inr \<lparr>items = Some [[(''name'', ''europe-west1'')]], nextPageToken = Some ''page2''\<rparr>,
        Inr \<lparr>items = Some [[(''name'', ''us-east1'')]], nextPageToken = None\<rparr>]\<rparr>"


text \<open>
  The prompts of \<open>main\<close>, and the events of a run by the part of \<open>main\<close> they come from:
  \<open>region_event p\<close> holds of what lines 290-298 do for the project \<open>p\<close> (the region prompts,
  the regions listing of the project, the printed list), \<open>deploy_event p\<close> of what lines
  306-326 do (the four remaining prompts and the Data Transfer calls, under a location of
  the project and, for the create request, with a query on the datasets of the project),
  \<open>property_event\<close> of the property prompt of lines 299-302. \<open>run_event p\<close> holds of all
  of them, and of no lookup in the environment.
\<close>

definition ga_prompt :: string where
  "ga_prompt = ''Please enter the GA property ID you are collecting CWV data with: ''"

definition region_prompts :: "string list" where
  "region_prompts =
     [''Which region should be deployed to (type list for a list)? '',
      ''Which region is the GA export in (list for a list of regions)? '']"

definition email_prompts :: "string list" where
  "email_prompts =
     [''Please enter the address of the email server to use to send alerts: '',
      ''Please enter the username for authenticating with the email server: '',
      ''Please enter the password for authenticating with the email server: '',
      ''Please enter a comma-separated list of email addresses to send the alerts to: '']"

fun region_event :: "string \<Rightarrow> event \<Rightarrow> bool" where
  "region_event p (ApiCall (RegionsList rq)) = (rq_project rq = Some p)"
| "region_event p (ApiCall c) = False"
| "region_event p (Input q l) = (q \<in> set region_prompts)"
| "region_event p (InputEOF q) = (q \<in> set region_prompts)"
| "region_event p (Print s) = True"
| "region_event p (EnvLookup k) = False"

fun deploy_event :: "string \<Rightarrow> event \<Rightarrow> bool" where
  "deploy_event p (ApiCall (RegionsList rq)) = False"
| "deploy_event p (ApiCall (ListTransferConfigs parent ids)) =
     prefix (''projects/'' @ p @ ''/locations/'') parent"
| "deploy_event p (ApiCall (DeleteTransferConfig n)) = True"
| "deploy_event p (ApiCall (CreateTransferConfig parent cfg)) =
     (prefix (''projects/'' @ p @ ''/locations/'') parent \<and>
      list_all (\<lambda>kv. sublist (''`'' @ p @ ''.analytics_'') (snd kv)) (params cfg))"
| "deploy_event p (Input q l) = (q \<in> set email_prompts)"
| "deploy_event p (InputEOF q) = (q \<in> set email_prompts)"
| "deploy_event p (Print s) = False"
| "deploy_event p (EnvLookup k) = False"

fun property_event :: "event \<Rightarrow> bool" where
  "property_event (Input q l) = (q = ga_prompt)"
| "property_event (InputEOF q) = (q = ga_prompt)"
| "property_event ev = False"

definition run_event :: "string \<Rightarrow> event \<Rightarrow> bool" where
  "run_event p ev = (region_event p ev \<or> property_event ev \<or> deploy_event p ev)"


fun is_env_lookup :: "event \<Rightarrow> bool" where
  "is_env_lookup (EnvLookup k) = True"
| "is_env_lookup ev = False"

text \<open>\<open>extends_by P w w'\<close>: the trace of \<open>w'\<close> is the trace of \<open>w\<close> followed by events that satisfy \<open>P\<close>.\<close>

definition extends_by :: "(event \<Rightarrow> bool) \<Rightarrow> world \<Rightarrow> world \<Rightarrow> bool" where
  "extends_by P w w' = (\<exists>evs. trace w' = trace w @ evs \<and> list_all P evs)"

text \<open>
  Command lines: no flag given; every flag given; only the region given. And worlds for
  \<open>main\<close>: the credentials resolve no project and the environment names one; the
  credentials resolve the empty project id and the environment names none; the operator
  asks for the list of regions, picks one, and answers the property prompt with \<open>abc\<close>;
  the only line of standard input is \<open>12a\<close>.
\<close>

definition no_flags :: args where
  "no_flags =
     \<lparr>arg_ga_property = None, arg_region = None, arg_email_server = None,
      arg_email_user = None, arg_email_password = None, arg_alert_recipients = None\<rparr>"

definition all_flags :: args where
  "all_flags =
     \<lparr>arg_ga_property = Some 123, arg_region = Some ''eu'', arg_email_server = Some ''smtp.example.com'',
      arg_email_user = Some ''alerts'', arg_email_password = Some ''secret'',
      arg_alert_recipients = Some ''ops@example.com''\<rparr>"


definition env_project_world :: world where
  "env_project_world =
     example_world\<lparr>auth_default := Inr (''token'', None),
                    environ := [(''HOME'', ''/root''), (''GOOGLE_CLOUD_PROJECT'', ''env-proj'')]\<rparr>"

definition no_project_world :: world where
  "no_project_world =
     example_world\<lparr>auth_default := Inr (''token'', Some []),
                    environ := [(''HOME'', ''/root'')], stdin := [''eu'', ''123'']\<rparr>"



subsection \<open>The Data Transfer calls\<close>

lemma delete_transfer_config_ok:
  "delete_transfer_config n w = (Inr u, w') \<Longrightarrow>
     configs w' = filter (\<lambda>pc. name (snd pc) \<noteq> n) (configs w) \<and> fault w' = fault w \<and>
     trace w' = trace w @ [ApiCall (DeleteTransferConfig n)] \<and>
     n \<in> set (map (name \<circ> snd) (configs w))"
  by (auto simp: delete_transfer_config_def emit_def Let_def split: option.splits if_splits)

lemma delete_transfer_config_frame:
  "delete_transfer_config n w = (r, w') \<Longrightarrow>
     fault w' = fault w \<and> stdin w' = stdin w \<and> environ w' = environ w \<and>
     next_id w' = next_id w \<and> regions_pages w' = regions_pages w \<and>
     auth_default w' = auth_default w \<and>
     trace w' = trace w @ [ApiCall (DeleteTransferConfig n)] \<and>
     set (configs w') \<subseteq> set (configs w) \<and>
     (\<forall>pc \<in> set (configs w). name (snd pc) \<noteq> n \<longrightarrow> pc \<in> set (configs w'))"
  by (auto simp: delete_transfer_config_def emit_def Let_def split: option.splits if_splits)

lemma list_transfer_configs_ok:
  "list_transfer_configs parent ids w = (Inr cs, w') \<Longrightarrow>
     cs = map snd (filter (\<lambda>pc. fst pc = parent \<and> (ids = [] \<or> data_source_id (snd pc) \<in> set ids))
            (configs w)) \<and>
     w' = emit (ApiCall (ListTransferConfigs parent ids)) w"
  by (auto simp: list_transfer_configs_def Let_def split: option.splits)

lemma list_transfer_configs_err:
  "list_transfer_configs parent ids w = (Inl e, w') \<Longrightarrow>
     w' = emit (ApiCall (ListTransferConfigs parent ids)) w"
  by (auto simp: list_transfer_configs_def Let_def split: option.splits)

subsection \<open>The deletion loop\<close>

text \<open>
  A pass that ends without an error has removed exactly the configs whose resource name is
  that of a listed config with the display name.
\<close>

lemma delete_matching_ok:
  "delete_matching dn cs w = (Inr (), w') \<Longrightarrow>
     configs w' = filter (\<lambda>pc. name (snd pc) \<notin> name ` {c \<in> set cs. display_name c = dn}) (configs w)"
proof (induction cs arbitrary: w)
  case Nil
  then show ?case by simp
next
  case (Cons c cs)
  show ?case
  proof (cases "display_name c = dn")
    case False
    with Cons.prems have "delete_matching dn cs w = (Inr (), w')" by simp
    from Cons.IH[OF this] False show ?thesis
      by (auto intro!: filter_cong)
  next
    case True
    with Cons.prems obtain w1 where
      d: "delete_transfer_config (name c) w = (Inr (), w1)" and
      r: "delete_matching dn cs w1 = (Inr (), w')"
      by (auto split: prod.splits sum.splits)
    from delete_transfer_config_ok[OF d]
    have c1: "configs w1 = filter (\<lambda>pc. name (snd pc) \<noteq> name c) (configs w)" by simp
    from Cons.IH[OF r] c1 True show ?thesis
      by (auto intro!: filter_cong)
  qed
qed

text \<open>Whatever the outcome, the pass touches nothing but the configs and the trace.\<close>

lemma delete_matching_frame:
  "delete_matching dn cs w = (r, w') \<Longrightarrow>
     fault w' = fault w \<and> stdin w' = stdin w \<and> environ w' = environ w \<and>
     next_id w' = next_id w \<and> regions_pages w' = regions_pages w \<and>
     auth_default w' = auth_default w"
proof (induction cs arbitrary: w)
  case Nil
  then show ?case by auto
next
  case (Cons c cs)
  show ?case
  proof (cases "display_name c = dn")
    case False
    with Cons.prems have "delete_matching dn cs w = (r, w')" by simp
    from Cons.IH[OF this] show ?thesis .
  next
    case True
    obtain r1 w1 where d: "delete_transfer_config (name c) w = (r1, w1)"
      by (cases "delete_transfer_config (name c) w")
    note f = delete_transfer_config_frame[OF d]
    show ?thesis
    proof (cases r1)
      case (Inl e)
      with True d Cons.prems have "w' = w1" by simp
      with f show ?thesis by simp
    next
      case (Inr u)
      with True d Cons.prems have "delete_matching dn cs w1 = (r, w')" by simp
      from Cons.IH[OF this] f show ?thesis by simp
    qed
  qed
qed

text \<open>The calls of a pass are deletions of listed configs with the display name.\<close>

lemma delete_matching_calls:
  "delete_matching dn cs w = (r, w') \<Longrightarrow>
     \<exists>ns. set ns \<subseteq> name ` {c \<in> set cs. display_name c = dn} \<and>
          trace w' = trace w @ map (\<lambda>n. ApiCall (DeleteTransferConfig n)) ns"
proof (induction cs arbitrary: w)
  case Nil
  then have "trace w' = trace w @ map (\<lambda>n. ApiCall (DeleteTransferConfig n)) []" by auto
  then show ?case by (intro exI[of _ "[]"]) simp
next
  case (Cons c cs)
  show ?case
  proof (cases "display_name c = dn")
    case False
    with Cons.prems have "delete_matching dn cs w = (r, w')" by simp
    from Cons.IH[OF this] show ?thesis by auto
  next
    case True
    obtain r1 w1 where d: "delete_transfer_config (name c) w = (r1, w1)"
      by (cases "delete_transfer_config (name c) w")
    note f = delete_transfer_config_frame[OF d]
    show ?thesis
    proof (cases r1)
      case (Inl e)
      with True d Cons.prems have "w' = w1" by simp
      with f True show ?thesis by (intro exI[of _ "[name c]"]) simp
    next
      case (Inr u)
      with True d Cons.prems have "delete_matching dn cs w1 = (r, w')" by simp
      from Cons.IH[OF this] obtain ns where
        ns: "set ns \<subseteq> name ` {c \<in> set cs. display_name c = dn}"
            "trace w' = trace w1 @ map (\<lambda>n. ApiCall (DeleteTransferConfig n)) ns"
        by blast
      with f True show ?thesis by (intro exI[of _ "name c # ns"]) auto
    qed
  qed
qed

lemma delete_matching_calls_ok:
  "delete_matching dn cs w = (Inr (), w') \<Longrightarrow>
     trace w' = trace w @
       map (\<lambda>c. ApiCall (DeleteTransferConfig (name c))) (filter (\<lambda>c. display_name c = dn) cs)"
proof (induction cs arbitrary: w)
  case Nil
  then show ?case by simp
next
  case (Cons c cs)
  show ?case
  proof (cases "display_name c = dn")
    case False
    with Cons.prems have "delete_matching dn cs w = (Inr (), w')" by simp
    from Cons.IH[OF this] False show ?thesis by simp
  next
    case True
    with Cons.prems obtain w1 where
      d: "delete_transfer_config (name c) w = (Inr (), w1)" and
      r: "delete_matching dn cs w1 = (Inr (), w')"
      by (auto split: prod.splits sum.splits)
    from Cons.IH[OF r] delete_transfer_config_ok[OF d] True show ?thesis by simp
  qed
qed

text \<open>A config survives the pass, failed or not, unless a listed config with the display name bears its resource name.\<close>

lemma delete_matching_keeps:
  "delete_matching dn cs w = (r, w') \<Longrightarrow> pc \<in> set (configs w) \<Longrightarrow>
     name (snd pc) \<notin> name ` {c \<in> set cs. display_name c = dn} \<Longrightarrow> pc \<in> set (configs w')"
proof (induction cs arbitrary: w)
  case Nil
  then show ?case by auto
next
  case (Cons c cs)
  show ?case
  proof (cases "display_name c = dn")
    case False
    with Cons.prems have "delete_matching dn cs w = (r, w')" by simp
    from Cons.IH[OF this Cons.prems(2)] Cons.prems(3) show ?thesis by auto
  next
    case True
    obtain r1 w1 where d: "delete_transfer_config (name c) w = (r1, w1)"
      by (cases "delete_transfer_config (name c) w")
    note f = delete_transfer_config_frame[OF d]
    from Cons.prems(3) True have ne: "name (snd pc) \<noteq> name c" by auto
    with f Cons.prems(2) have in1: "pc \<in> set (configs w1)" by blast
    show ?thesis
    proof (cases r1)
      case (Inl e)
      with True d Cons.prems have "w' = w1" by simp
      with in1 show ?thesis by simp
    next
      case (Inr u)
      with True d Cons.prems have "delete_matching dn cs w1 = (r, w')" by simp
      from Cons.IH[OF this in1] Cons.prems(3) show ?thesis by auto
    qed
  qed
qed

text \<open>With no failing call, and the listed configs stored under pairwise different names, the pass ends without an error.\<close>

lemma delete_matching_succeeds:
  "\<forall>c. fault w c = None \<Longrightarrow> distinct (map name cs) \<Longrightarrow>
   name ` {c \<in> set cs. display_name c = dn} \<subseteq> set (map (name \<circ> snd) (configs w)) \<Longrightarrow>
   fst (delete_matching dn cs w) = Inr ()"
proof (induction cs arbitrary: w)
  case Nil
  then show ?case by simp
next
  case (Cons c cs)
  show ?case
  proof (cases "display_name c = dn")
    case False
    with Cons.prems Cons.IH[of w] show ?thesis by auto
  next
    case True
    with Cons.prems have inw: "name c \<in> set (map (name \<circ> snd) (configs w))" by auto
    define w1 where "w1 = (emit (ApiCall (DeleteTransferConfig (name c))) w)
        \<lparr>configs := filter (\<lambda>pc. name (snd pc) \<noteq> name c) (configs w)\<rparr>"
    from inw Cons.prems(1) have d: "delete_transfer_config (name c) w = (Inr (), w1)"
      by (simp add: delete_transfer_config_def Let_def w1_def)
    have f1: "\<forall>c. fault w1 c = None" using Cons.prems(1) by (simp add: w1_def emit_def)
    have sub: "name ` {c \<in> set cs. display_name c = dn} \<subseteq> set (map (name \<circ> snd) (configs w1))"
    proof
      fix n assume n: "n \<in> name ` {c \<in> set cs. display_name c = dn}"
      with Cons.prems(2) have "n \<noteq> name c" by (auto simp: image_iff)
      moreover from n Cons.prems(3) have "n \<in> set (map (name \<circ> snd) (configs w))" by auto
      ultimately show "n \<in> set (map (name \<circ> snd) (configs w1))"
        by (auto simp: w1_def emit_def)
    qed
    from Cons.prems(2) have "distinct (map name cs)" by simp
    from Cons.IH[OF f1 this sub] d True show ?thesis by simp
  qed
qed

subsection \<open>delete_scheduled_query\<close>

lemma unique_names_eq:
  assumes "unique_names w" "pc \<in> set (configs w)" "pc' \<in> set (configs w)"
    "name (snd pc) = name (snd pc')"
  shows "pc = pc'"
proof -
  from assms(1) have "inj_on (name \<circ> snd) (set (configs w))"
    by (simp add: unique_names_def distinct_map)
  from inj_onD[OF this _ assms(2,3)] assms(4) show ?thesis by simp
qed

lemma listed_names:
  assumes "unique_names w" "pc \<in> set (configs w)"
  shows "name (snd pc) \<in> name ` {c \<in> set (map snd (filter (\<lambda>pc. fst pc = parent \<and>
            ([''scheduled_query''] = [] \<or> data_source_id (snd pc) \<in> set [''scheduled_query'']))
            (configs w))). display_name c = dn}
         \<longleftrightarrow> scheduled_named parent dn pc"
proof
  assume "scheduled_named parent dn pc"
  with assms(2) show "name (snd pc) \<in> name ` {c \<in> set (map snd (filter (\<lambda>pc. fst pc = parent \<and>
            ([''scheduled_query''] = [] \<or> data_source_id (snd pc) \<in> set [''scheduled_query'']))
            (configs w))). display_name c = dn}"
    by (force simp: scheduled_named_def)
next
  assume "name (snd pc) \<in> name ` {c \<in> set (map snd (filter (\<lambda>pc. fst pc = parent \<and>
            ([''scheduled_query''] = [] \<or> data_source_id (snd pc) \<in> set [''scheduled_query'']))
            (configs w))). display_name c = dn}"
  then obtain pc' where p: "pc' \<in> set (configs w)" "scheduled_named parent dn pc'"
     "name (snd pc') = name (snd pc)"
    by (auto simp: scheduled_named_def)
  from unique_names_eq[OF assms(1) p(1) assms(2) p(3)] p(2) show "scheduled_named parent dn pc"
    by simp
qed

lemma delete_scheduled_query_ok:
  assumes u: "unique_names w"
    and ok: "delete_scheduled_query dn project_id region w = (Inr (), w')"
  shows "configs w' =
     filter (\<lambda>pc. \<not> scheduled_named (common_location_path project_id region) dn pc) (configs w)"
proof -
  let ?parent = "common_location_path project_id region"
  from ok obtain cs w1 where
    l: "list_transfer_configs ?parent [''scheduled_query''] w = (Inr cs, w1)" and
    d: "delete_matching dn cs w1 = (Inr (), w')"
    by (auto simp: delete_scheduled_query_def Let_def split: prod.splits sum.splits)
  note lo = list_transfer_configs_ok[OF l]
  from lo have c1: "configs w1 = configs w" by (simp add: emit_def)
  have "configs w' = filter (\<lambda>pc. name (snd pc) \<notin> name ` {c \<in> set cs. display_name c = dn}) (configs w)"
    using delete_matching_ok[OF d] c1 by simp
  also have "\<dots> = filter (\<lambda>pc. \<not> scheduled_named ?parent dn pc) (configs w)"
    using listed_names[OF u, of _ ?parent dn] lo by (intro filter_cong) auto
  finally show ?thesis .
qed

lemma delete_scheduled_query_succeeds:
  assumes u: "unique_names w" and nf: "\<forall>c. fault w c = None"
  shows "fst (delete_scheduled_query dn project_id region w) = Inr ()"
proof -
  let ?parent = "common_location_path project_id region"
  let ?cs = "map snd (filter (\<lambda>pc. fst pc = ?parent \<and>
      ([''scheduled_query''] = [] \<or> data_source_id (snd pc) \<in> set [''scheduled_query''])) (configs w))"
  let ?w1 = "emit (ApiCall (ListTransferConfigs ?parent [''scheduled_query''])) w"
  from nf have l: "list_transfer_configs ?parent [''scheduled_query''] w = (Inr ?cs, ?w1)"
    by (simp add: list_transfer_configs_def Let_def)
  have f1: "\<forall>c. fault ?w1 c = None" using nf by (simp add: emit_def)
  from u have dist: "distinct (map name ?cs)"
    by (simp add: unique_names_def distinct_map_filter comp_def)
  have sub: "name ` {c \<in> set ?cs. display_name c = dn} \<subseteq> set (map (name \<circ> snd) (configs ?w1))"
    by (auto simp: emit_def)
  from delete_matching_succeeds[OF f1 dist sub] l show ?thesis
    by (simp add: delete_scheduled_query_def Let_def)
qed

lemma create_transfer_config_ok:
  "create_transfer_config parent cfg w = (Inr created, w') \<Longrightarrow>
     fault w (CreateTransferConfig parent cfg) = None \<and>
     created = cfg\<lparr>name := parent @ ''/transferConfigs/'' @ string_of_nat (next_id w)\<rparr> \<and>
     configs w' = configs w @ [(parent, created)] \<and>
     trace w' = trace w @ [ApiCall (CreateTransferConfig parent cfg)]"
  by (auto simp: create_transfer_config_def emit_def Let_def split: option.splits)

lemma create_transfer_config_err:
  "create_transfer_config parent cfg w = (Inl e, w') \<Longrightarrow>
     fault w (CreateTransferConfig parent cfg) = Some e \<and>
     w' = emit (ApiCall (CreateTransferConfig parent cfg)) w"
  by (auto simp: create_transfer_config_def emit_def Let_def split: option.splits)

lemma delete_scheduled_query_frame:
  assumes "delete_scheduled_query dn project_id region w = (r, w')"
  shows "fault w' = fault w \<and> stdin w' = stdin w \<and> environ w' = environ w \<and>
     next_id w' = next_id w \<and> regions_pages w' = regions_pages w \<and>
     auth_default w' = auth_default w"
proof -
  let ?parent = "common_location_path project_id region"
  obtain r1 w1 where l: "list_transfer_configs ?parent [''scheduled_query''] w = (r1, w1)"
    by (cases "list_transfer_configs ?parent [''scheduled_query''] w")
  show ?thesis
  proof (cases r1)
    case (Inl e)
    with l assms list_transfer_configs_err[of ?parent "[''scheduled_query'']" w e w1]
    show ?thesis by (auto simp: delete_scheduled_query_def Let_def emit_def)
  next
    case (Inr cs)
    with l assms have d: "delete_matching dn cs w1 = (r, w')"
      by (simp add: delete_scheduled_query_def Let_def)
    from Inr l list_transfer_configs_ok[of ?parent "[''scheduled_query'']" w cs w1]
    have "w1 = emit (ApiCall (ListTransferConfigs ?parent [''scheduled_query''])) w" by simp
    with delete_matching_frame[OF d] show ?thesis by (simp add: emit_def)
  qed
qed

lemma listed_scheduled_named:
  "filter (\<lambda>c. display_name c = dn)
     (map snd (filter (\<lambda>pc. fst pc = parent \<and>
        ([''scheduled_query''] = [] \<or> data_source_id (snd pc) \<in> set [''scheduled_query''])) cfgs))
   = map snd (filter (scheduled_named parent dn) cfgs)"
  by (induction cfgs) (auto simp: scheduled_named_def)

lemma delete_scheduled_query_calls_ok:
  assumes ok: "delete_scheduled_query dn project_id region w = (Inr (), w')"
  shows "trace w' = trace w @
     ApiCall (ListTransferConfigs (common_location_path project_id region) [''scheduled_query'']) #
     map (\<lambda>pc. ApiCall (DeleteTransferConfig (name (snd pc))))
       (filter (scheduled_named (common_location_path project_id region) dn) (configs w))"
proof -
  let ?parent = "common_location_path project_id region"
  from ok obtain cs w1 where
    l: "list_transfer_configs ?parent [''scheduled_query''] w = (Inr cs, w1)" and
    d: "delete_matching dn cs w1 = (Inr (), w')"
    by (auto simp: delete_scheduled_query_def Let_def split: prod.splits sum.splits)
  note lo = list_transfer_configs_ok[OF l]
  from lo have t1: "trace w1 = trace w @ [ApiCall (ListTransferConfigs ?parent [''scheduled_query''])]"
    by (simp add: emit_def)
  from lo have "filter (\<lambda>c. display_name c = dn) cs = map snd (filter (scheduled_named ?parent dn) (configs w))"
    using listed_scheduled_named[of dn ?parent "configs w"] by simp
  with delete_matching_calls_ok[OF d] t1 show ?thesis by (simp add: comp_def)
qed

lemma delete_scheduled_query_calls:
  assumes run: "delete_scheduled_query dn project_id region w = (r, w')"
  shows "\<exists>ns. set ns \<subseteq> name ` {c. (common_location_path project_id region, c) \<in> set (configs w) \<and>
                    data_source_id c = ''scheduled_query'' \<and> display_name c = dn} \<and>
     trace w' = trace w @
       ApiCall (ListTransferConfigs (common_location_path project_id region) [''scheduled_query'']) #
       map (\<lambda>n. ApiCall (DeleteTransferConfig n)) ns"
proof -
  let ?parent = "common_location_path project_id region"
  obtain r1 w1 where l: "list_transfer_configs ?parent [''scheduled_query''] w = (r1, w1)"
    by (cases "list_transfer_configs ?parent [''scheduled_query''] w")
  show ?thesis
  proof (cases r1)
    case (Inl e)
    with l run list_transfer_configs_err[of ?parent "[''scheduled_query'']" w e w1]
    have "trace w' = trace w @ [ApiCall (ListTransferConfigs ?parent [''scheduled_query''])]"
      by (auto simp: delete_scheduled_query_def Let_def emit_def)
    then show ?thesis by (intro exI[of _ "[]"]) simp
  next
    case (Inr cs)
    with l run have d: "delete_matching dn cs w1 = (r, w')"
      by (simp add: delete_scheduled_query_def Let_def)
    from Inr l list_transfer_configs_ok[of ?parent "[''scheduled_query'']" w cs w1]
    have lo: "cs = map snd (filter (\<lambda>pc. fst pc = ?parent \<and>
        ([''scheduled_query''] = [] \<or> data_source_id (snd pc) \<in> set [''scheduled_query''])) (configs w))"
      "w1 = emit (ApiCall (ListTransferConfigs ?parent [''scheduled_query''])) w" by simp_all
    from delete_matching_calls[OF d] obtain ns where
      ns: "set ns \<subseteq> name ` {c \<in> set cs. display_name c = dn}"
          "trace w' = trace w1 @ map (\<lambda>n. ApiCall (DeleteTransferConfig n)) ns" by blast
    have "name ` {c \<in> set cs. display_name c = dn} \<subseteq>
        name ` {c. (?parent, c) \<in> set (configs w) \<and>
                    data_source_id c = ''scheduled_query'' \<and> display_name c = dn}"
      using lo(1) by auto
    with ns lo(2) show ?thesis by (intro exI[of _ ns]) (auto simp: emit_def)
  qed
qed

lemma delete_scheduled_query_keeps:
  assumes u: "unique_names w"
    and run: "delete_scheduled_query dn project_id region w = (r, w')"
    and pc: "pc \<in> set (configs w)"
    and other: "\<not> scheduled_named (common_location_path project_id region) dn pc"
  shows "pc \<in> set (configs w')"
proof -
  let ?parent = "common_location_path project_id region"
  obtain r1 w1 where l: "list_transfer_configs ?parent [''scheduled_query''] w = (r1, w1)"
    by (cases "list_transfer_configs ?parent [''scheduled_query''] w")
  show ?thesis
  proof (cases r1)
    case (Inl e)
    with l run list_transfer_configs_err[of ?parent "[''scheduled_query'']" w e w1] pc
    show ?thesis by (auto simp: delete_scheduled_query_def Let_def emit_def)
  next
    case (Inr cs)
    with l run have d: "delete_matching dn cs w1 = (r, w')"
      by (simp add: delete_scheduled_query_def Let_def)
    from Inr l list_transfer_configs_ok[of ?parent "[''scheduled_query'']" w cs w1]
    have lo: "cs = map snd (filter (\<lambda>pc. fst pc = ?parent \<and>
        ([''scheduled_query''] = [] \<or> data_source_id (snd pc) \<in> set [''scheduled_query''])) (configs w))"
      "w1 = emit (ApiCall (ListTransferConfigs ?parent [''scheduled_query''])) w" by simp_all
    from lo(2) pc have p1: "pc \<in> set (configs w1)" by (simp add: emit_def)
    from other listed_names[OF u pc, of ?parent dn] lo(1)
    have "name (snd pc) \<notin> name ` {c \<in> set cs. display_name c = dn}" by simp
    from delete_matching_keeps[OF d p1 this] show ?thesis .
  qed
qed

lemma example_world_unique: "unique_names example_world"
  by (simp add: unique_names_def example_world_def stored_def)

text \<open>
  C1. In a state of the service (resource names pairwise different),
  \<open>delete_scheduled_query display_name project_id region\<close> ends without an error whenever no
  API call fails, and whenever it ends without an error the configs left are the configs
  there were, in their order, without the scheduled queries of the location
  \<open>projects/project_id/locations/region\<close> whose display name equals \<open>display_name\<close>: all of
  those are deleted, be they none, one or many, and every other config is untouched.
\<close>

theorem delete_scheduled_query_exact:
  assumes "unique_names w"
  shows "((\<forall>c. fault w c = None) \<longrightarrow>
            fst (delete_scheduled_query dn project_id region w) = Inr ()) \<and>
         (fst (delete_scheduled_query dn project_id region w) = Inr () \<longrightarrow>
            configs (snd (delete_scheduled_query dn project_id region w)) =
              filter (\<lambda>pc. \<not> scheduled_named (common_location_path project_id region) dn pc)
                (configs w))"
proof (intro conjI impI)
  assume "\<forall>c. fault w c = None"
  with assms show "fst (delete_scheduled_query dn project_id region w) = Inr ()"
    by (rule delete_scheduled_query_succeeds)
next
  assume "fst (delete_scheduled_query dn project_id region w) = Inr ()"
  then have "delete_scheduled_query dn project_id region w =
      (Inr (), snd (delete_scheduled_query dn project_id region w))"
    by (simp add: prod_eq_iff)
  from delete_scheduled_query_ok[OF assms this] show
    "configs (snd (delete_scheduled_query dn project_id region w)) =
       filter (\<lambda>pc. \<not> scheduled_named (common_location_path project_id region) dn pc) (configs w)" .
qed

theorem delete_scheduled_query_exact_witness:
  "unique_names example_world \<and>
   fst (delete_scheduled_query ''Update Web Vitals Summary'' ''proj'' ''eu'' example_world) = Inr () \<and>
   map (name \<circ> snd)
     (configs (snd (delete_scheduled_query ''Update Web Vitals Summary'' ''proj'' ''eu'' example_world)))
     = [''c2'', ''c3'', ''c4'']"
  using delete_scheduled_query_exact[OF example_world_unique,
      of "''Update Web Vitals Summary''" "''proj''" "''eu''"]
  by (simp add: example_world_unique)
     (simp add: example_world_def stored_def scheduled_named_def common_location_path_def)

text \<open>
  C10. \<open>delete_scheduled_query\<close> lists the configs of the location with the data source
  filter \<open>['scheduled_query']\<close> and with no other listing; every call it makes after that
  deletes a scheduled query of the location that has the display name; and, whether or not
  the run ends in an error, every stored config of another data source is still stored
  afterwards, also when its display name is the given one.
\<close>

theorem delete_scheduled_query_other_sources:
  assumes "unique_names w"
  shows "(\<exists>ns. set ns \<subseteq> name ` {c. (common_location_path project_id region, c) \<in> set (configs w) \<and>
                      data_source_id c = ''scheduled_query'' \<and> display_name c = dn} \<and>
            trace (snd (delete_scheduled_query dn project_id region w)) = trace w @
              ApiCall (ListTransferConfigs (common_location_path project_id region) [''scheduled_query'']) #
              map (\<lambda>n. ApiCall (DeleteTransferConfig n)) ns) \<and>
         (\<forall>pc \<in> set (configs w). data_source_id (snd pc) \<noteq> ''scheduled_query'' \<longrightarrow>
            pc \<in> set (configs (snd (delete_scheduled_query dn project_id region w))))"
proof (intro conjI ballI impI)
  show "\<exists>ns. set ns \<subseteq> name ` {c. (common_location_path project_id region, c) \<in> set (configs w) \<and>
                      data_source_id c = ''scheduled_query'' \<and> display_name c = dn} \<and>
            trace (snd (delete_scheduled_query dn project_id region w)) = trace w @
              ApiCall (ListTransferConfigs (common_location_path project_id region) [''scheduled_query'']) #
              map (\<lambda>n. ApiCall (DeleteTransferConfig n)) ns"
    by (rule delete_scheduled_query_calls[OF surjective_pairing])
next
  fix pc
  assume pc: "pc \<in> set (configs w)" and ds: "data_source_id (snd pc) \<noteq> ''scheduled_query''"
  from ds have "\<not> scheduled_named (common_location_path project_id region) dn pc"
    by (simp add: scheduled_named_def)
  from delete_scheduled_query_keeps[OF assms surjective_pairing pc this]
  show "pc \<in> set (configs (snd (delete_scheduled_query dn project_id region w)))" .
qed

theorem delete_scheduled_query_other_sources_witness:
  "unique_names example_world \<and>
   (''projects/proj/locations/eu'', stored ''c3'' ''Update Web Vitals Summary'' ''google_ads'')
     \<in> set (configs example_world) \<and>
   (''projects/proj/locations/eu'', stored ''c3'' ''Update Web Vitals Summary'' ''google_ads'')
     \<in> set (configs (snd (delete_scheduled_query ''Update Web Vitals Summary'' ''proj'' ''eu''
           example_world))) \<and>
   trace (snd (delete_scheduled_query ''Update Web Vitals Summary'' ''proj'' ''eu'' example_world)) =
     [ApiCall (ListTransferConfigs ''projects/proj/locations/eu'' [''scheduled_query'']),
      ApiCall (DeleteTransferConfig ''c1''), ApiCall (DeleteTransferConfig ''c5'')]"
proof -
  have in0: "(''projects/proj/locations/eu'', stored ''c3'' ''Update Web Vitals Summary'' ''google_ads'')
     \<in> set (configs example_world)"
    by (simp add: example_world_def)
  have tr: "trace (snd (delete_scheduled_query ''Update Web Vitals Summary'' ''proj'' ''eu'' example_world)) =
     [ApiCall (ListTransferConfigs ''projects/proj/locations/eu'' [''scheduled_query'']),
      ApiCall (DeleteTransferConfig ''c1''), ApiCall (DeleteTransferConfig ''c5'')]"
    by (simp add: example_world_def stored_def delete_scheduled_query_def common_location_path_def
          list_transfer_configs_def delete_transfer_config_def emit_def Let_def)
  from delete_scheduled_query_other_sources[OF example_world_unique,
      of "''proj''" "''eu''" "''Update Web Vitals Summary''"] in0
  have "(''projects/proj/locations/eu'', stored ''c3'' ''Update Web Vitals Summary'' ''google_ads'')
     \<in> set (configs (snd (delete_scheduled_query ''Update Web Vitals Summary'' ''proj'' ''eu''
           example_world)))"
    by (simp add: stored_def)
  with example_world_unique in0 tr show ?thesis by simp
qed

subsection \<open>deploy_scheduled_materialize_query\<close>

lemma sublist_join_lines: "l \<in> set ls \<Longrightarrow> sublist l (join_lines ls)"
proof (induction ls rule: join_lines.induct)
  case 1
  then show ?case by simp
next
  case (2 l')
  then show ?case by simp
next
  case (3 l' m ls)
  show ?case
  proof (cases "l = l'")
    case True
    then show ?thesis by (simp add: sublist_append_rightI)
  next
    case False
    with 3 have "sublist l (join_lines (m # ls))" by simp
    then have "sublist l (CHR 0x0A # join_lines (m # ls))" by (simp add: sublist_Cons_right)
    moreover have "sublist (CHR 0x0A # join_lines (m # ls)) (l' @ CHR 0x0A # join_lines (m # ls))"
      by (rule sublist_append_leftI)
    ultimately show ?thesis by (simp add: sublist_order.order_trans)
  qed
qed

lemma materialize_query_table:
  "sublist (''`'' @ project_id @ ''.analytics_'' @ format_ga ga_property @ ''.web_vitals_summary`'')
     (materialize_query project_id ga_property)"
proof -
  let ?line = "''CREATE OR REPLACE TABLE `'' @ project_id @ ''.analytics_'' @
      format_ga ga_property @ ''.web_vitals_summary`''"
  have "?line = ''CREATE OR REPLACE TABLE '' @
      (''`'' @ project_id @ ''.analytics_'' @ format_ga ga_property @ ''.web_vitals_summary`'')"
    by simp
  then have a: "sublist (''`'' @ project_id @ ''.analytics_'' @ format_ga ga_property @
      ''.web_vitals_summary`'') ?line"
    by (simp only: sublist_append_leftI)
  have "sublist ?line (materialize_query project_id ga_property)"
    unfolding materialize_query_def by (rule sublist_join_lines) simp
  with a show ?thesis by (rule sublist_order.order_trans)
qed


text \<open>The function, with its two steps named.\<close>

lemma deploy_unfold:
  "deploy_scheduled_materialize_query project_id region ga_property w =
     (case delete_scheduled_query ''Update Web Vitals Summary'' project_id region w of
        (Inl e, w1) \<Rightarrow> (Inl e, w1)
      | (Inr u, w1) \<Rightarrow>
          (case create_transfer_config (common_location_path project_id region)
                  (requested_config project_id ga_property) w1 of
             (Inl e, w2) \<Rightarrow> (Inl e, w2)
           | (Inr created, w2) \<Rightarrow> (Inr (), w2)))"
  by (simp add: deploy_scheduled_materialize_query_def requested_config_def Let_def
        split: prod.splits sum.splits)

lemma deploy_after_delete:
  assumes "delete_scheduled_query ''Update Web Vitals Summary'' project_id region w = (Inr (), w1)"
  shows "deploy_scheduled_materialize_query project_id region ga_property w =
     (case fault w (CreateTransferConfig (common_location_path project_id region)
                      (requested_config project_id ga_property)) of
        Some e \<Rightarrow> (Inl e, emit (ApiCall (CreateTransferConfig (common_location_path project_id region)
                      (requested_config project_id ga_property))) w1)
      | None \<Rightarrow> (Inr (),
          (emit (ApiCall (CreateTransferConfig (common_location_path project_id region)
                      (requested_config project_id ga_property))) w1)
          \<lparr>configs := configs w1 @ [(common_location_path project_id region,
               (requested_config project_id ga_property)
                 \<lparr>name := common_location_path project_id region @ ''/transferConfigs/'' @
                      string_of_nat (next_id w1)\<rparr>)],
            next_id := Suc (next_id w1)\<rparr>))"
proof -
  from delete_scheduled_query_frame[OF assms] have "fault w1 = fault w" by simp
  with assms show ?thesis
    by (simp add: deploy_unfold create_transfer_config_def Let_def split: option.splits)
qed

lemma scheduled_named_requested:
  "scheduled_named parent ''Update Web Vitals Summary''
     (parent, (requested_config project_id ga_property)\<lparr>name := n\<rparr>)"
  by (simp add: scheduled_named_def requested_config_def)



lemma deploy_succeeds:
  assumes u: "unique_names w" and nf: "\<forall>c. fault w c = None"
  shows "fst (deploy_scheduled_materialize_query project_id region ga_property w) = Inr ()"
proof -
  from delete_scheduled_query_succeeds[OF u nf, of "''Update Web Vitals Summary''" project_id region]
  have d: "delete_scheduled_query ''Update Web Vitals Summary'' project_id region w =
      (Inr (), snd (delete_scheduled_query ''Update Web Vitals Summary'' project_id region w))"
    by (simp add: prod_eq_iff)
  from nf show ?thesis by (simp add: deploy_after_delete[OF d])
qed

lemma deploy_ok_delete_ok:
  assumes "fst (deploy_scheduled_materialize_query project_id region ga_property w) = Inr ()"
  shows "fst (delete_scheduled_query ''Update Web Vitals Summary'' project_id region w) = Inr () \<and>
     fault w (CreateTransferConfig (common_location_path project_id region)
                (requested_config project_id ga_property)) = None"
proof -
  obtain r1 w1 where d: "delete_scheduled_query ''Update Web Vitals Summary'' project_id region w = (r1, w1)"
    by (cases "delete_scheduled_query ''Update Web Vitals Summary'' project_id region w")
  show ?thesis
  proof (cases r1)
    case (Inl e)
    with d assms show ?thesis by (simp add: deploy_unfold)
  next
    case (Inr u)
    with d have d': "delete_scheduled_query ''Update Web Vitals Summary'' project_id region w = (Inr (), w1)"
      by simp
    from assms d' show ?thesis
      by (auto simp: deploy_after_delete[OF d'] split: option.splits)
  qed
qed

text \<open>
  C3. In a state of the service (resource names pairwise different),
  \<open>deploy_scheduled_materialize_query\<close> ends without an error whenever no API call fails.
  Whenever it ends without an error, that is, the deletion pass and the create call both
  succeeded, its calls were, in this order, the listing, one deletion for each scheduled
  query of the location \<open>projects/project_id/locations/region\<close> that had the display name
  \<open>Update Web Vitals Summary\<close>, and the create request; and afterwards the location holds
  exactly one scheduled query with that display name.
\<close>

theorem deploy_delete_then_create:
  assumes "unique_names w"
  shows "((\<forall>c. fault w c = None) \<longrightarrow>
            fst (deploy_scheduled_materialize_query project_id region ga_property w) = Inr ()) \<and>
         (fst (deploy_scheduled_materialize_query project_id region ga_property w) = Inr () \<longrightarrow>
            trace (snd (deploy_scheduled_materialize_query project_id region ga_property w)) =
              trace w @
              ApiCall (ListTransferConfigs (common_location_path project_id region)
                         [''scheduled_query'']) #
              map (\<lambda>pc. ApiCall (DeleteTransferConfig (name (snd pc))))
                (filter (scheduled_named (common_location_path project_id region)
                           ''Update Web Vitals Summary'') (configs w)) @
              [ApiCall (CreateTransferConfig (common_location_path project_id region)
                          (requested_config project_id ga_property))] \<and>
            length (filter (scheduled_named (common_location_path project_id region)
                              ''Update Web Vitals Summary'')
                      (configs (snd (deploy_scheduled_materialize_query project_id region
                                       ga_property w)))) = 1)"
proof (intro conjI impI)
  assume "\<forall>c. fault w c = None"
  with assms show "fst (deploy_scheduled_materialize_query project_id region ga_property w) = Inr ()"
    by (rule deploy_succeeds)
next
  let ?parent = "common_location_path project_id region"
  let ?w1 = "snd (delete_scheduled_query ''Update Web Vitals Summary'' project_id region w)"
  assume ok: "fst (deploy_scheduled_materialize_query project_id region ga_property w) = Inr ()"
  note dk = deploy_ok_delete_ok[OF ok]
  from dk have d: "delete_scheduled_query ''Update Web Vitals Summary'' project_id region w =
      (Inr (), ?w1)"
    by (simp add: prod_eq_iff)
  note run = deploy_after_delete[OF d, of ga_property]
  from delete_scheduled_query_calls_ok[OF d] dk run
  show "trace (snd (deploy_scheduled_materialize_query project_id region ga_property w)) =
      trace w @
      ApiCall (ListTransferConfigs ?parent [''scheduled_query'']) #
      map (\<lambda>pc. ApiCall (DeleteTransferConfig (name (snd pc))))
        (filter (scheduled_named ?parent ''Update Web Vitals Summary'') (configs w)) @
      [ApiCall (CreateTransferConfig ?parent (requested_config project_id ga_property))]"
    by (simp add: emit_def)
  from delete_scheduled_query_ok[OF assms d]
  have "filter (scheduled_named ?parent ''Update Web Vitals Summary'') (configs ?w1) = []"
    by (simp add: filter_empty_conv)
  with dk run
  show "length (filter (scheduled_named ?parent ''Update Web Vitals Summary'')
      (configs (snd (deploy_scheduled_materialize_query project_id region ga_property w)))) = 1"
    by (simp add: emit_def scheduled_named_requested)
qed

theorem deploy_delete_then_create_witness:
  "unique_names example_world \<and>
   fst (deploy_scheduled_materialize_query ''proj'' ''eu'' (GaStr ''123'') example_world) = Inr () \<and>
   trace (snd (deploy_scheduled_materialize_query ''proj'' ''eu'' (GaStr ''123'') example_world)) =
     [ApiCall (ListTransferConfigs ''projects/proj/locations/eu'' [''scheduled_query'']),
      ApiCall (DeleteTransferConfig ''c1''), ApiCall (DeleteTransferConfig ''c5''),
      ApiCall (CreateTransferConfig ''projects/proj/locations/eu''
                 (requested_config ''proj'' (GaStr ''123'')))] \<and>
   length (filter (scheduled_named ''projects/proj/locations/eu'' ''Update Web Vitals Summary'')
     (configs (snd (deploy_scheduled_materialize_query ''proj'' ''eu'' (GaStr ''123'')
        example_world)))) = 1"
proof -
  have nf: "\<forall>c. fault example_world c = None" by (simp add: example_world_def)
  from deploy_delete_then_create[OF example_world_unique, of "''proj''" "''eu''" "GaStr ''123''"] nf
  have ok: "fst (deploy_scheduled_materialize_query ''proj'' ''eu'' (GaStr ''123'') example_world) = Inr ()"
    by blast
  with deploy_delete_then_create[OF example_world_unique, of "''proj''" "''eu''" "GaStr ''123''"]
  have "trace (snd (deploy_scheduled_materialize_query ''proj'' ''eu'' (GaStr ''123'') example_world)) =
      trace example_world @
      ApiCall (ListTransferConfigs (common_location_path ''proj'' ''eu'') [''scheduled_query'']) #
      map (\<lambda>pc. ApiCall (DeleteTransferConfig (name (snd pc))))
        (filter (scheduled_named (common_location_path ''proj'' ''eu'')
                   ''Update Web Vitals Summary'') (configs example_world)) @
      [ApiCall (CreateTransferConfig (common_location_path ''proj'' ''eu'')
                  (requested_config ''proj'' (GaStr ''123'')))]"
    and "length (filter (scheduled_named (common_location_path ''proj'' ''eu'')
                              ''Update Web Vitals Summary'')
        (configs (snd (deploy_scheduled_materialize_query ''proj'' ''eu'' (GaStr ''123'')
            example_world)))) = 1"
    by blast+
  then show ?thesis using ok example_world_unique
    by (simp add: common_location_path_def example_world_def stored_def scheduled_named_def)
qed

text \<open>
  C4. In a state of the service, whenever the deletion pass succeeds and the create call
  then fails, \<open>deploy_scheduled_materialize_query\<close> ends in the error of the create call, and
  the world it leaves is the world the deletion pass left with the failed create call added
  to the trace and nothing else: no further call is made, the deletions are kept, and the
  location holds no scheduled query with the display name \<open>Update Web Vitals Summary\<close>.
\<close>

theorem deploy_create_failure:
  assumes "unique_names w"
    and "fst (delete_scheduled_query ''Update Web Vitals Summary'' project_id region w) = Inr ()"
    and "fault w (CreateTransferConfig (common_location_path project_id region)
                    (requested_config project_id ga_property)) = Some e"
  shows "deploy_scheduled_materialize_query project_id region ga_property w =
           (Inl e, emit (ApiCall (CreateTransferConfig (common_location_path project_id region)
                                    (requested_config project_id ga_property)))
                     (snd (delete_scheduled_query ''Update Web Vitals Summary'' project_id region w))) \<and>
         configs (snd (deploy_scheduled_materialize_query project_id region ga_property w)) =
           filter (\<lambda>pc. \<not> scheduled_named (common_location_path project_id region)
                           ''Update Web Vitals Summary'' pc) (configs w) \<and>
         filter (scheduled_named (common_location_path project_id region)
                   ''Update Web Vitals Summary'')
           (configs (snd (deploy_scheduled_materialize_query project_id region ga_property w))) = []"
proof -
  let ?w1 = "snd (delete_scheduled_query ''Update Web Vitals Summary'' project_id region w)"
  from assms(2) have d: "delete_scheduled_query ''Update Web Vitals Summary'' project_id region w =
      (Inr (), ?w1)"
    by (simp add: prod_eq_iff)
  from deploy_after_delete[OF d, of ga_property] assms(3)
  have run: "deploy_scheduled_materialize_query project_id region ga_property w =
      (Inl e, emit (ApiCall (CreateTransferConfig (common_location_path project_id region)
                               (requested_config project_id ga_property))) ?w1)"
    by simp
  from delete_scheduled_query_ok[OF assms(1) d]
  have c: "configs ?w1 = filter (\<lambda>pc. \<not> scheduled_named (common_location_path project_id region)
                           ''Update Web Vitals Summary'' pc) (configs w)" .
  from run c show ?thesis by (simp add: emit_def filter_empty_conv)
qed

theorem deploy_create_failure_witness:
  "unique_names example_world_no_create \<and>
   fst (delete_scheduled_query ''Update Web Vitals Summary'' ''proj'' ''eu'' example_world_no_create)
     = Inr () \<and>
   fault example_world_no_create (CreateTransferConfig (common_location_path ''proj'' ''eu'')
       (requested_config ''proj'' (GaStr ''123''))) = Some (GoogleAPICallError ''quota exceeded'') \<and>
   fst (deploy_scheduled_materialize_query ''proj'' ''eu'' (GaStr ''123'') example_world_no_create)
     = Inl (GoogleAPICallError ''quota exceeded'') \<and>
   map (name \<circ> snd) (configs (snd (deploy_scheduled_materialize_query ''proj'' ''eu''
       (GaStr ''123'') example_world_no_create))) = [''c2'', ''c3'', ''c4''] \<and>
   filter (scheduled_named (common_location_path ''proj'' ''eu'') ''Update Web Vitals Summary'')
     (configs (snd (deploy_scheduled_materialize_query ''proj'' ''eu'' (GaStr ''123'')
        example_world_no_create))) = []"
proof -
  have u: "unique_names example_world_no_create"
    by (simp add: unique_names_def example_world_no_create_def example_world_def stored_def)
  have d: "fst (delete_scheduled_query ''Update Web Vitals Summary'' ''proj'' ''eu''
      example_world_no_create) = Inr ()"
    by (simp add: example_world_no_create_def example_world_def stored_def
          delete_scheduled_query_def common_location_path_def list_transfer_configs_def
          delete_transfer_config_def emit_def Let_def)
  have f: "fault example_world_no_create (CreateTransferConfig (common_location_path ''proj'' ''eu'')
       (requested_config ''proj'' (GaStr ''123''))) = Some (GoogleAPICallError ''quota exceeded'')"
    by (simp add: example_world_no_create_def)
  note t = deploy_create_failure[OF u d f]
  from t have "configs (snd (deploy_scheduled_materialize_query ''proj'' ''eu''
       (GaStr ''123'') example_world_no_create)) =
     filter (\<lambda>pc. \<not> scheduled_named (common_location_path ''proj'' ''eu'')
                           ''Update Web Vitals Summary'' pc) (configs example_world_no_create)"
    by blast
  then have c: "map (name \<circ> snd) (configs (snd (deploy_scheduled_materialize_query ''proj'' ''eu''
       (GaStr ''123'') example_world_no_create))) = [''c2'', ''c3'', ''c4'']"
    by (simp add: example_world_no_create_def example_world_def stored_def scheduled_named_def
          common_location_path_def)
  from t have "fst (deploy_scheduled_materialize_query ''proj'' ''eu'' (GaStr ''123'')
      example_world_no_create) = Inl (GoogleAPICallError ''quota exceeded'')"
    by simp
  with u d f c t show ?thesis by blast
qed

subsection \<open>get_gcp_regions\<close>







text \<open>
  A first page that carries a page token: the follow-up request of line 47 is built without
  the project, the client refuses to build it, and no further page is fetched.
\<close>

lemma get_gcp_regions_next_page:
  assumes "regions_pages w = Inr page # rest" "items page = Some its" "nextPageToken page = Some token"
  shows "get_gcp_regions creds project_id w =
     (Inl (TypeError ''Missing required parameter \"project\"''),
      (emit (ApiCall (RegionsList \<lparr>rq_project = Some project_id, rq_pageToken = None\<rparr>)) w)
        \<lparr>regions_pages := rest\<rparr>)"
  using assms
  by (simp add: get_gcp_regions_def regions_list_def regions_loop.simps execute_def Let_def)

text \<open>
  C5. The listing of two pages: \<open>get_gcp_regions\<close> fetches the first page with a request
  for the project, and raises \<open>TypeError\<close> where it builds the request for the second page,
  which stays unread. It returns no region names.
\<close>

theorem get_gcp_regions_two_pages:
  "fst (get_gcp_regions ''token'' ''proj'' two_page_world) =
     Inl (TypeError ''Missing required parameter \"project\"'') \<and>
   trace (snd (get_gcp_regions ''token'' ''proj'' two_page_world)) =
     [ApiCall (RegionsList \<lparr>rq_project = Some ''proj'', rq_pageToken = None\<rparr>)] \<and>
   regions_pages (snd (get_gcp_regions ''token'' ''proj'' two_page_world)) =
     [Inr \<lparr>items = Some [[(''name'', ''us-east1'')]], nextPageToken = None\<rparr>]"
  by (simp add: get_gcp_regions_next_page[where rest =
        "[Inr \<lparr>items = Some [[(''name'', ''us-east1'')]], nextPageToken = None\<rparr>]"]
      two_page_world_def example_world_def emit_def)




subsection \<open>The traces of main's steps\<close>

lemma extends_by_refl: "extends_by P w w"
  by (simp add: extends_by_def)

lemma extends_by_trans: "extends_by P w w1 \<Longrightarrow> extends_by P w1 w2 \<Longrightarrow> extends_by P w w2"
  by (auto simp: extends_by_def)

lemma extends_by_emit: "P ev \<Longrightarrow> extends_by P w (emit ev w)"
  by (simp add: extends_by_def emit_def)

lemma and_then_extends:
  assumes m: "\<And>w r w'. m w = (r, w') \<Longrightarrow> extends_by P w w'"
    and f: "\<And>x w r w'. f x w = (r, w') \<Longrightarrow> extends_by P w w'"
    and run: "and_then m f w = (r, w')"
  shows "extends_by P w w'"
proof -
  obtain r1 w1 where m1: "m w = (r1, w1)" by (cases "m w")
  show ?thesis
  proof (cases r1)
    case (Inl e)
    with m1 run have "w' = w1" by (simp add: and_then_def)
    with m[OF m1] show ?thesis by simp
  next
    case (Inr x)
    with m1 run have "f x w1 = (r, w')" by (simp add: and_then_def)
    from extends_by_trans[OF m[OF m1] f[OF this]] show ?thesis .
  qed
qed

lemma py_input_cases:
  assumes "py_input prompt w = (r, w')"
  shows "(r = Inl EOFError \<and> trace w' = trace w @ [InputEOF prompt]) \<or>
         (\<exists>l. r = Inr l \<and> trace w' = trace w @ [Input prompt l])"
  using assms by (auto simp: py_input_def emit_def split: list.splits)

lemma execute_trace:
  "execute request w = (r, w') \<Longrightarrow> trace w' = trace w @ [ApiCall (RegionsList request)]"
  by (auto simp: execute_def Let_def emit_def split: list.splits)

lemma regions_loop_trace:
  "regions_loop request regions w = (r, w') \<Longrightarrow> rq_project request = Some p \<Longrightarrow>
     extends_by (region_event p) w w'"
proof (induction request regions w rule: regions_loop.induct)
  case (1 request regions w)
  obtain a w1 where ex: "execute request w = (a, w1)" by (cases "execute request w")
  from execute_trace[OF ex] "1.prems"(2) have e1: "extends_by (region_event p) w w1"
    by (simp add: extends_by_def)
  from "1.prems"(1) ex have "w' = w1"
    by (subst (asm) regions_loop.simps)
       (auto simp: regions_list_def split: sum.splits option.splits)
  with e1 show ?case by simp
qed

lemma get_gcp_regions_trace:
  "get_gcp_regions creds p w = (r, w') \<Longrightarrow> extends_by (region_event p) w w'"
  by (auto simp: get_gcp_regions_def regions_list_def intro: regions_loop_trace)

text \<open>
  The region loop: its events are region events, and a cloud API call among them means
  that the loop was entered with \<open>list\<close> or that a later answer was \<open>list\<close>.
\<close>

lemma region_list_loop_trace:
  "region_list_loop creds p region w = (r, w') \<Longrightarrow>
     \<exists>evs. trace w' = trace w @ evs \<and> list_all (region_event p) evs \<and>
       ((\<exists>c. ApiCall c \<in> set evs) \<longrightarrow>
          region = ''list'' \<or>
          (\<exists>q \<in> set region_prompts. \<exists>l. Input q l \<in> set evs \<and> strip l = ''list''))"
proof (induction creds p region w rule: region_list_loop.induct)
  case (1 creds p region w)
  show ?case
  proof (cases "region = ''list''")
    case False
    with "1.prems" have "w' = w" by (subst (asm) region_list_loop.simps) simp
    then show ?thesis by (intro exI[of _ "[]"]) simp
  next
    case True
    obtain r1 w1 where g: "get_gcp_regions creds p w = (r1, w1)"
      by (cases "get_gcp_regions creds p w")
    from get_gcp_regions_trace[OF g] obtain evs1 where
      e1: "trace w1 = trace w @ evs1" "list_all (region_event p) evs1"
      by (auto simp: extends_by_def)
    show ?thesis
    proof (cases r1)
      case (Inl e)
      with True g "1.prems" have "w' = w1" by (subst (asm) region_list_loop.simps) simp
      with e1 True show ?thesis by (intro exI[of _ evs1]) simp
    next
      case (Inr region_list)
      let ?q = "''Which region is the GA export in (list for a list of regions)? ''"
      obtain r2 w2 where i: "py_input ?q (py_print (join_lines region_list) w1) = (r2, w2)"
        by (cases "py_input ?q (py_print (join_lines region_list) w1)")
      from py_input_cases[OF i]
      show ?thesis
      proof (elim disjE conjE exE)
        assume eof: "r2 = Inl EOFError"
          and t2: "trace w2 = trace (py_print (join_lines region_list) w1) @ [InputEOF ?q]"
        from True g Inr i eof "1.prems" have "w' = w2"
          by (subst (asm) region_list_loop.simps) simp
        with t2 e1 True show ?thesis
          by (intro exI[of _ "evs1 @ [Print (join_lines region_list), InputEOF ?q]"])
             (simp add: py_print_def emit_def region_prompts_def)
      next
        fix l
        assume rl: "r2 = Inr l"
          and t2: "trace w2 = trace (py_print (join_lines region_list) w1) @ [Input ?q l]"
        from True g Inr i rl "1.prems" have rec: "region_list_loop creds p (strip l) w2 = (r, w')"
          by (subst (asm) region_list_loop.simps) simp
        from "1.IH"[OF True g[symmetric] Inr i[symmetric] rl rec] obtain evs where
          ev: "trace w' = trace w2 @ evs" "list_all (region_event p) evs"
              "(\<exists>c. ApiCall c \<in> set evs) \<longrightarrow>
                 strip l = ''list'' \<or>
                 (\<exists>q \<in> set region_prompts. \<exists>l. Input q l \<in> set evs \<and> strip l = ''list'')"
          by blast
        from t2 e1 ev True show ?thesis
          by (intro exI[of _ "evs1 @ [Print (join_lines region_list), Input ?q l] @ evs"])
             (simp add: py_print_def emit_def region_prompts_def)
      qed
    qed
  qed
qed

lemma ask_region_trace:
  assumes "ask_region creds p args w = (r, w')"
  shows "\<exists>evs. trace w' = trace w @ evs \<and> list_all (region_event p) evs \<and>
       ((\<exists>c. ApiCall c \<in> set evs) \<longrightarrow>
          (\<exists>q \<in> set region_prompts. \<exists>l. Input q l \<in> set evs \<and> strip l = ''list''))"
proof -
  let ?q = "''Which region should be deployed to (type list for a list)? ''"
  let ?ask = "case py_input ?q w of
           (Inl e, w1) \<Rightarrow> (Inl e, w1)
         | (Inr line, w1) \<Rightarrow> region_list_loop creds p (strip line) w1"
  have asked: "?ask = (r, w') \<Longrightarrow> ?thesis"
  proof -
    assume a: "?ask = (r, w')"
    obtain r1 w1 where i: "py_input ?q w = (r1, w1)" by (cases "py_input ?q w")
    from py_input_cases[OF i] show ?thesis
    proof (elim disjE conjE exE)
      assume "r1 = Inl EOFError" and t: "trace w1 = trace w @ [InputEOF ?q]"
      with a i have "w' = w1" by simp
      with t show ?thesis
        by (intro exI[of _ "[InputEOF ?q]"]) (simp add: region_prompts_def)
    next
      fix l assume "r1 = Inr l" and t: "trace w1 = trace w @ [Input ?q l]"
      with a i have "region_list_loop creds p (strip l) w1 = (r, w')" by simp
      from region_list_loop_trace[OF this] obtain evs where
        ev: "trace w' = trace w1 @ evs" "list_all (region_event p) evs"
            "(\<exists>c. ApiCall c \<in> set evs) \<longrightarrow>
               strip l = ''list'' \<or>
               (\<exists>q \<in> set region_prompts. \<exists>l. Input q l \<in> set evs \<and> strip l = ''list'')"
        by blast
      have "?q \<in> set region_prompts" by (simp add: region_prompts_def)
      with t ev show ?thesis
        by (intro exI[of _ "Input ?q l # evs"]) auto
    qed
  qed
  show ?thesis
  proof (cases "arg_region args")
    case None
    with assms have "?ask = (r, w')" by (simp add: ask_region_def Let_def)
    then show ?thesis by (rule asked)
  next
    case (Some region)
    show ?thesis
    proof (cases "region = []")
      case True
      with Some assms have "?ask = (r, w')" by (simp add: ask_region_def Let_def)
      then show ?thesis by (rule asked)
    next
      case False
      with Some assms have "w' = w" by (simp add: ask_region_def Let_def)
      then show ?thesis by (intro exI[of _ "[]"]) simp
    qed
  qed
qed

lemma ask_ga_property_cases:
  assumes "ask_ga_property args w = (r, w')"
  shows "(w' = w \<and> (\<exists>i. r = Inr (GaInt i))) \<or>
         (r = Inl EOFError \<and> trace w' = trace w @ [InputEOF ga_prompt]) \<or>
         (\<exists>l. trace w' = trace w @ [Input ga_prompt l] \<and>
              (if isdigit (strip l) then r = Inr (GaStr (strip l))
               else r = Inl (SystemExit ''Only GA4 properties are supported at this time.'')))"
proof -
  let ?ask = "case py_input ga_prompt w of
           (Inl e, w1) \<Rightarrow> (Inl e, w1)
         | (Inr line, w1) \<Rightarrow>
             if \<not> isdigit (strip line)
             then (Inl (SystemExit ''Only GA4 properties are supported at this time.''), w1)
             else (Inr (GaStr (strip line)), w1)"
  have asked: "?ask = (r, w') \<Longrightarrow> ?thesis"
  proof -
    assume a: "?ask = (r, w')"
    obtain r1 w1 where i: "py_input ga_prompt w = (r1, w1)" by (cases "py_input ga_prompt w")
    from py_input_cases[OF i] show ?thesis
    proof (elim disjE conjE exE)
      assume "r1 = Inl EOFError" and t: "trace w1 = trace w @ [InputEOF ga_prompt]"
      with a i show ?thesis by auto
    next
      fix l assume "r1 = Inr l" and t: "trace w1 = trace w @ [Input ga_prompt l]"
      with a i show ?thesis by (cases "isdigit (strip l)") auto
    qed
  qed
  show ?thesis
  proof (cases "arg_ga_property args")
    case None
    with assms have "?ask = (r, w')" by (simp add: ask_ga_property_def Let_def ga_prompt_def)
    then show ?thesis by (rule asked)
  next
    case (Some i)
    show ?thesis
    proof (cases "i = 0")
      case True
      with Some assms have "?ask = (r, w')" by (simp add: ask_ga_property_def Let_def ga_prompt_def)
      then show ?thesis by (rule asked)
    next
      case False
      with Some assms show ?thesis by (auto simp: ask_ga_property_def Let_def)
    qed
  qed
qed

lemma ask_if_unset_trace:
  assumes "ask_if_unset given prompt w = (r, w')" and "prompt \<in> set email_prompts"
  shows "extends_by (deploy_event p) w w'"
proof -
  let ?ask = "case py_input prompt w of
           (Inl e, w1) \<Rightarrow> (Inl e, w1)
         | (Inr line, w1) \<Rightarrow> (Inr (strip line), w1)"
  have asked: "?ask = (r, w') \<Longrightarrow> ?thesis"
  proof -
    assume a: "?ask = (r, w')"
    obtain r1 w1 where i: "py_input prompt w = (r1, w1)" by (cases "py_input prompt w")
    from py_input_cases[OF i] a i assms(2) show ?thesis
      by (auto simp: extends_by_def)
  qed
  show ?thesis
  proof (cases given)
    case None
    with assms have "?ask = (r, w')" by (simp add: ask_if_unset_def Let_def)
    then show ?thesis by (rule asked)
  next
    case (Some v)
    show ?thesis
    proof (cases "v = []")
      case True
      with Some assms have "?ask = (r, w')" by (simp add: ask_if_unset_def Let_def)
      then show ?thesis by (rule asked)
    next
      case False
      with Some assms have "w' = w" by (simp add: ask_if_unset_def Let_def)
      then show ?thesis by (simp add: extends_by_refl)
    qed
  qed
qed

lemma location_prefix:
  "prefix (''projects/'' @ p @ ''/locations/'') (common_location_path p region)"
  by (simp add: common_location_path_def)

lemma delete_scheduled_query_trace:
  assumes "delete_scheduled_query dn p region w = (r, w')"
  shows "extends_by (deploy_event p) w w'"
proof -
  from delete_scheduled_query_calls[OF assms] obtain ns where
    t: "trace w' = trace w @
       ApiCall (ListTransferConfigs (common_location_path p region) [''scheduled_query'']) #
       map (\<lambda>n. ApiCall (DeleteTransferConfig n)) ns"
    by blast
  have "list_all (deploy_event p) (map (\<lambda>n. ApiCall (DeleteTransferConfig n)) ns)"
    by (induction ns) simp_all
  with t location_prefix[of p region] show ?thesis
    by (auto simp: extends_by_def)
qed

lemma create_transfer_config_trace:
  "create_transfer_config parent cfg w = (r, w') \<Longrightarrow>
     trace w' = trace w @ [ApiCall (CreateTransferConfig parent cfg)]"
  by (auto simp: create_transfer_config_def Let_def emit_def split: option.splits)

lemma requested_config_project:
  "list_all (\<lambda>kv. sublist (''`'' @ p @ ''.analytics_'') (snd kv))
     (params (requested_config p ga_property))"
proof -
  have "sublist (''`'' @ p @ ''.analytics_'')
      ((''`'' @ p @ ''.analytics_'') @ (format_ga ga_property @ ''.web_vitals_summary`''))"
    by (rule sublist_append_rightI)
  then have "sublist (''`'' @ p @ ''.analytics_'')
      (''`'' @ p @ ''.analytics_'' @ format_ga ga_property @ ''.web_vitals_summary`'')"
    by simp
  from sublist_order.order_trans[OF this materialize_query_table]
  show ?thesis by (simp add: requested_config_def)
qed

lemma deploy_trace:
  assumes "deploy_scheduled_materialize_query p region ga_property w = (r, w')"
  shows "extends_by (deploy_event p) w w'"
proof -
  obtain r1 w1 where d: "delete_scheduled_query ''Update Web Vitals Summary'' p region w = (r1, w1)"
    by (cases "delete_scheduled_query ''Update Web Vitals Summary'' p region w")
  note e1 = delete_scheduled_query_trace[OF d]
  show ?thesis
  proof (cases r1)
    case (Inl e)
    with d assms have "w' = w1" by (simp add: deploy_unfold)
    with e1 show ?thesis by simp
  next
    case (Inr u)
    obtain r2 w2 where c: "create_transfer_config (common_location_path p region)
        (requested_config p ga_property) w1 = (r2, w2)"
      by (cases "create_transfer_config (common_location_path p region)
        (requested_config p ga_property) w1")
    from Inr d c assms have "w' = w2" by (auto simp: deploy_unfold split: sum.splits)
    moreover from create_transfer_config_trace[OF c] location_prefix[of p region]
      requested_config_project[of p ga_property]
    have "extends_by (deploy_event p) w1 w2" by (simp add: extends_by_def)
    ultimately show ?thesis using e1 by (auto intro: extends_by_trans)
  qed
qed

lemma deploy_all_trace:
  assumes "deploy_all p region ga_property w = (r, w')"
  shows "extends_by (deploy_event p) w w'"
proof -
  obtain r1 w1 where d: "deploy_scheduled_materialize_query p region ga_property w = (r1, w1)"
    by (cases "deploy_scheduled_materialize_query p region ga_property w")
  from d assms have "w' = w1"
    by (auto simp: deploy_all_def deploy_p75_procedure_def deploy_cloudrun_alerter_def
          create_cloudrun_trigger_def split: sum.splits)
  with deploy_trace[OF d] show ?thesis by simp
qed

text \<open>Lines 306-326: the four remaining prompts and the deployment.\<close>

lemma after_property_trace:
  assumes "and_then (ask_if_unset (arg_email_server args)
       ''Please enter the address of the email server to use to send alerts: '') (\<lambda>email_server.
     and_then (ask_if_unset (arg_email_user args)
       ''Please enter the username for authenticating with the email server: '') (\<lambda>email_user.
     and_then (ask_if_unset (arg_email_password args)
       ''Please enter the password for authenticating with the email server: '') (\<lambda>email_password.
     and_then (ask_if_unset (arg_alert_recipients args)
       ''Please enter a comma-separated list of email addresses to send the alerts to: '')
       (\<lambda>alert_recipients.
     deploy_all p region ga_property)))) w = (r, w')"
  shows "extends_by (deploy_event p) w w'"
  by (rule and_then_extends[OF _ _ assms];
      (erule ask_if_unset_trace, simp add: email_prompts_def)?;
      (erule and_then_extends[rotated 2];
       (erule ask_if_unset_trace, simp add: email_prompts_def)?;
       (erule and_then_extends[rotated 2];
        (erule ask_if_unset_trace, simp add: email_prompts_def)?;
        (erule and_then_extends[rotated 2];
         (erule ask_if_unset_trace, simp add: email_prompts_def)?;
         (erule deploy_all_trace)?)?)?)?)

text \<open>
  A run of lines 290-326 for the project \<open>p\<close>: first the events of the region prompt;
  then nothing, or the property prompt met by the end of standard input, or the property
  prompt answered by a line; then the events of the remaining prompts and of the
  deployment, of which there are none, the run ending in \<open>SystemExit\<close>, when the answer,
  stripped, is not a digit string.
\<close>

lemma main_with_project_trace:
  assumes run: "main_with_project creds p args w = (r, w')"
  shows "\<exists>evs1 evs2 evs3.
     trace w' = trace w @ evs1 @ evs2 @ evs3 \<and>
     list_all (region_event p) evs1 \<and>
     ((\<exists>c. ApiCall c \<in> set evs1) \<longrightarrow>
        (\<exists>q \<in> set region_prompts. \<exists>l. Input q l \<in> set evs1 \<and> strip l = ''list'')) \<and>
     list_all (deploy_event p) evs3 \<and>
     (evs2 = [] \<or> (evs2 = [InputEOF ga_prompt] \<and> evs3 = []) \<or>
      (\<exists>l. evs2 = [Input ga_prompt l] \<and>
         (isdigit (strip l) \<or>
          (evs3 = [] \<and> r = Inl (SystemExit ''Only GA4 properties are supported at this time.'')))))"
proof -
  obtain r1 w1 where a1: "ask_region creds p args w = (r1, w1)"
    by (cases "ask_region creds p args w")
  from ask_region_trace[OF a1] obtain evs1 where
    e1: "trace w1 = trace w @ evs1" "list_all (region_event p) evs1"
        "(\<exists>c. ApiCall c \<in> set evs1) \<longrightarrow>
           (\<exists>q \<in> set region_prompts. \<exists>l. Input q l \<in> set evs1 \<and> strip l = ''list'')"
    by blast
  show ?thesis
  proof (cases r1)
    case (Inl e)
    with a1 run have "w' = w1" by (simp add: main_with_project_def and_then_def)
    with e1 show ?thesis
      by (intro exI[of _ evs1] exI[of _ "[]"]) simp
  next
    case (Inr region)
    obtain r2 w2 where a2: "ask_ga_property args w1 = (r2, w2)"
      by (cases "ask_ga_property args w1")
    have rest: "\<And>ga. r2 = Inr ga \<Longrightarrow> \<exists>evs3. trace w' = trace w2 @ evs3 \<and> list_all (deploy_event p) evs3"
    proof -
      fix ga assume "r2 = Inr ga"
      with Inr a1 a2 run have "and_then (ask_if_unset (arg_email_server args)
           ''Please enter the address of the email server to use to send alerts: '') (\<lambda>email_server.
         and_then (ask_if_unset (arg_email_user args)
           ''Please enter the username for authenticating with the email server: '') (\<lambda>email_user.
         and_then (ask_if_unset (arg_email_password args)
           ''Please enter the password for authenticating with the email server: '') (\<lambda>email_password.
         and_then (ask_if_unset (arg_alert_recipients args)
           ''Please enter a comma-separated list of email addresses to send the alerts to: '')
           (\<lambda>alert_recipients.
         deploy_all p region ga)))) w2 = (r, w')"
        by (simp add: main_with_project_def and_then_def[of "ask_region creds p args"]
              and_then_def[of "ask_ga_property args"])
      from after_property_trace[OF this]
      show "\<exists>evs3. trace w' = trace w2 @ evs3 \<and> list_all (deploy_event p) evs3"
        by (simp add: extends_by_def)
    qed
    have stop: "\<And>e. r2 = Inl e \<Longrightarrow> w' = w2 \<and> r = Inl e"
    proof -
      fix e assume "r2 = Inl e"
      with Inr a1 a2 run show "w' = w2 \<and> r = Inl e"
        by (auto simp: main_with_project_def and_then_def[of "ask_region creds p args"]
              and_then_def[of "ask_ga_property args"])
    qed
    from ask_ga_property_cases[OF a2] show ?thesis
    proof (elim disjE conjE exE)
      fix i assume "w2 = w1" "r2 = Inr (GaInt i)"
      with rest[of "GaInt i"] obtain evs3 where
        "trace w' = trace w1 @ evs3" "list_all (deploy_event p) evs3" by auto
      with e1 show ?thesis
        by (intro exI[of _ evs1] exI[of _ "[]"] exI[of _ evs3]) simp
    next
      assume "r2 = Inl EOFError" and t: "trace w2 = trace w1 @ [InputEOF ga_prompt]"
      with stop[of EOFError] have "w' = w2" by simp
      with t e1 show ?thesis
        by (intro exI[of _ evs1] exI[of _ "[InputEOF ga_prompt]"] exI[of _ "[]"]) simp
    next
      fix l
      assume t: "trace w2 = trace w1 @ [Input ga_prompt l]"
        and c: "if isdigit (strip l) then r2 = Inr (GaStr (strip l))
                else r2 = Inl (SystemExit ''Only GA4 properties are supported at this time.'')"
      show ?thesis
      proof (cases "isdigit (strip l)")
        case True
        with c rest[of "GaStr (strip l)"] obtain evs3 where
          "trace w' = trace w2 @ evs3" "list_all (deploy_event p) evs3" by auto
        with t e1 True show ?thesis
          by (intro exI[of _ evs1] exI[of _ "[Input ga_prompt l]"] exI[of _ evs3]) simp
      next
        case False
        with c stop[of "SystemExit ''Only GA4 properties are supported at this time.''"]
        have "w' = w2" "r = Inl (SystemExit ''Only GA4 properties are supported at this time.'')"
          by simp_all
        with t e1 show ?thesis
          by (intro exI[of _ evs1] exI[of _ "[Input ga_prompt l]"] exI[of _ "[]"]) simp
      qed
    qed
  qed
qed


subsection \<open>main\<close>

lemma main_unfold:
  "main args w =
     (case resolve_project_id w of
        (Inl e, w1) \<Rightarrow> (Inl e, w1)
      | (Inr (creds, project_id), w1) \<Rightarrow> main_with_project creds project_id args w1)"
  by (simp add: main_def and_then_def split: prod.splits sum.splits)

text \<open>
  C9. When the credentials resolve no project id (\<open>None\<close> or the empty string) and
  \<open>GOOGLE_CLOUD_PROJECT\<close> is not in the environment, \<open>main\<close> ends in
  \<open>KeyError('GOOGLE_CLOUD_PROJECT')\<close>, and all it has done is the lookup in the
  environment: the world is otherwise as it was, so nothing was read from standard input,
  no prompt was shown, for a project id or for anything else, and no cloud API call was
  made.
\<close>

theorem main_missing_project:
  assumes "auth_default w = Inr (creds, found)"
    and "found = None \<or> found = Some []"
    and "map_of (environ w) ''GOOGLE_CLOUD_PROJECT'' = None"
  shows "main args w =
           (Inl (KeyError ''GOOGLE_CLOUD_PROJECT''), emit (EnvLookup ''GOOGLE_CLOUD_PROJECT'') w) \<and>
         trace (snd (main args w)) = trace w @ [EnvLookup ''GOOGLE_CLOUD_PROJECT''] \<and>
         stdin (snd (main args w)) = stdin w \<and>
         configs (snd (main args w)) = configs w \<and>
         regions_pages (snd (main args w)) = regions_pages w"
proof -
  from assms have "resolve_project_id w =
      (Inl (KeyError ''GOOGLE_CLOUD_PROJECT''), emit (EnvLookup ''GOOGLE_CLOUD_PROJECT'') w)"
    by (auto simp: resolve_project_id_def environ_get_def)
  then have "main args w =
      (Inl (KeyError ''GOOGLE_CLOUD_PROJECT''), emit (EnvLookup ''GOOGLE_CLOUD_PROJECT'') w)"
    by (simp add: main_unfold)
  then show ?thesis by (simp add: emit_def)
qed

theorem main_missing_project_witness:
  "auth_default no_project_world = Inr (''token'', Some []) \<and>
   map_of (environ no_project_world) ''GOOGLE_CLOUD_PROJECT'' = None \<and>
   fst (main no_flags no_project_world) = Inl (KeyError ''GOOGLE_CLOUD_PROJECT'') \<and>
   trace (snd (main no_flags no_project_world)) = [EnvLookup ''GOOGLE_CLOUD_PROJECT''] \<and>
   stdin (snd (main no_flags no_project_world)) = [''eu'', ''123'']"
proof -
  have a: "auth_default no_project_world = Inr (''token'', Some [])"
    by (simp add: no_project_world_def)
  have e: "map_of (environ no_project_world) ''GOOGLE_CLOUD_PROJECT'' = None"
    by (simp add: no_project_world_def)
  have f: "Some ([] :: string) = None \<or> Some ([] :: string) = Some []" by simp
  note t = main_missing_project[OF a f e, of no_flags]
  from t have r: "fst (main no_flags no_project_world) = Inl (KeyError ''GOOGLE_CLOUD_PROJECT'')"
    by simp
  from t have "trace (snd (main no_flags no_project_world)) =
      trace no_project_world @ [EnvLookup ''GOOGLE_CLOUD_PROJECT'']"
    by blast
  then have tr: "trace (snd (main no_flags no_project_world)) = [EnvLookup ''GOOGLE_CLOUD_PROJECT'']"
    by (simp add: no_project_world_def example_world_def)
  from t have "stdin (snd (main no_flags no_project_world)) = stdin no_project_world"
    by blast
  then have st: "stdin (snd (main no_flags no_project_world)) = [''eu'', ''123'']"
    by (simp add: no_project_world_def)
  from a e r tr st show ?thesis by blast
qed

lemma main_with_project_run_events:
  assumes "main_with_project creds p args w = (r, w')"
  shows "\<exists>evs. trace w' = trace w @ evs \<and> list_all (run_event p) evs"
proof -
  from main_with_project_trace[OF assms] obtain evs1 evs2 evs3 where
    t: "trace w' = trace w @ evs1 @ evs2 @ evs3"
       "list_all (region_event p) evs1" "list_all (deploy_event p) evs3"
       "evs2 = [] \<or> (evs2 = [InputEOF ga_prompt] \<and> evs3 = []) \<or>
        (\<exists>l. evs2 = [Input ga_prompt l] \<and>
           (isdigit (strip l) \<or>
            (evs3 = [] \<and> r = Inl (SystemExit ''Only GA4 properties are supported at this time.''))))"
    by blast
  from t(2) have a: "list_all (run_event p) evs1"
    by (auto simp: list_all_iff run_event_def)
  from t(3) have c: "list_all (run_event p) evs3"
    by (auto simp: list_all_iff run_event_def)
  from t(4) have b: "list_all (run_event p) evs2"
    by (auto simp: run_event_def)
  from t(1) a b c show ?thesis
    by (intro exI[of _ "evs1 @ evs2 @ evs3"]) simp
qed

lemma run_event_not_lookup: "run_event p ev \<Longrightarrow> \<not> is_env_lookup ev"
  by (cases ev) (auto simp: run_event_def)

text \<open>
  C8. When the credentials resolve no project id (\<open>None\<close> or the empty string) and
  \<open>GOOGLE_CLOUD_PROJECT\<close> has the value \<open>v\<close>, \<open>main\<close> looks the variable up and goes on as
  lines 290-326 do with the project id \<open>v\<close>: after the lookup, every regions request is
  for the project \<open>v\<close>, every Data Transfer listing and create request is under a location
  of the project \<open>v\<close>, and the query is on the datasets of \<open>v\<close>. When the credentials
  resolve a project id \<open>p\<close> that is not empty, \<open>main\<close> goes on with \<open>p\<close> in the same way, and
  no event of the run is a lookup in the environment.
\<close>

theorem main_project_id:
  assumes "auth_default w = Inr (creds, found)"
  shows "(\<forall>v. (found = None \<or> found = Some []) \<and>
              map_of (environ w) ''GOOGLE_CLOUD_PROJECT'' = Some v \<longrightarrow>
            main args w =
              main_with_project creds v args (emit (EnvLookup ''GOOGLE_CLOUD_PROJECT'') w) \<and>
            (\<exists>evs. trace (snd (main args w)) =
                      trace w @ EnvLookup ''GOOGLE_CLOUD_PROJECT'' # evs \<and>
                    list_all (run_event v) evs)) \<and>
         (\<forall>p. found = Some p \<and> p \<noteq> [] \<longrightarrow>
            main args w = main_with_project creds p args w \<and>
            (\<exists>evs. trace (snd (main args w)) = trace w @ evs \<and> list_all (run_event p) evs \<and>
                    list_all (\<lambda>ev. \<not> is_env_lookup ev) evs))"
proof (intro conjI allI impI)
  fix v
  assume h: "(found = None \<or> found = Some []) \<and> map_of (environ w) ''GOOGLE_CLOUD_PROJECT'' = Some v"
  let ?w1 = "emit (EnvLookup ''GOOGLE_CLOUD_PROJECT'') w"
  from assms h have "resolve_project_id w = (Inr (creds, v), ?w1)"
    by (auto simp: resolve_project_id_def environ_get_def)
  then show m: "main args w = main_with_project creds v args ?w1"
    by (simp add: main_unfold)
  from main_with_project_run_events[OF surjective_pairing, of creds v args ?w1] obtain evs where
    "trace (snd (main_with_project creds v args ?w1)) = trace ?w1 @ evs" "list_all (run_event v) evs"
    by blast
  with m show "\<exists>evs. trace (snd (main args w)) =
      trace w @ EnvLookup ''GOOGLE_CLOUD_PROJECT'' # evs \<and> list_all (run_event v) evs"
    by (intro exI[of _ evs]) (simp add: emit_def)
next
  fix p
  assume h: "found = Some p \<and> p \<noteq> []"
  with assms have "resolve_project_id w = (Inr (creds, p), w)"
    by (auto simp: resolve_project_id_def)
  then show m: "main args w = main_with_project creds p args w"
    by (simp add: main_unfold)
  from main_with_project_run_events[OF surjective_pairing, of creds p args w] obtain evs where
    e: "trace (snd (main_with_project creds p args w)) = trace w @ evs" "list_all (run_event p) evs"
    by blast
  from e(2) have "list_all (\<lambda>ev. \<not> is_env_lookup ev) evs"
    by (auto simp: list_all_iff dest: run_event_not_lookup)
  with m e show "\<exists>evs. trace (snd (main args w)) = trace w @ evs \<and> list_all (run_event p) evs \<and>
      list_all (\<lambda>ev. \<not> is_env_lookup ev) evs"
    by (intro exI[of _ evs]) simp
qed

lemma all_flags_run:
  "auth_default w = Inr (creds, found) \<Longrightarrow>
   main_with_project creds p all_flags w = deploy_all p ''eu'' (GaInt 123) w"
  by (simp add: main_with_project_def and_then_def ask_region_def ask_ga_property_def
        ask_if_unset_def all_flags_def Let_def split: prod.splits sum.splits)

theorem main_project_id_witness:
  "auth_default env_project_world = Inr (''token'', None) \<and>
   map_of (environ env_project_world) ''GOOGLE_CLOUD_PROJECT'' = Some ''env-proj'' \<and>
   main all_flags env_project_world =
     main_with_project ''token'' ''env-proj'' all_flags
       (emit (EnvLookup ''GOOGLE_CLOUD_PROJECT'') env_project_world) \<and>
   trace (snd (main all_flags env_project_world)) =
     [EnvLookup ''GOOGLE_CLOUD_PROJECT'',
      ApiCall (ListTransferConfigs ''projects/env-proj/locations/eu'' [''scheduled_query'']),
      ApiCall (CreateTransferConfig ''projects/env-proj/locations/eu''
                 (requested_config ''env-proj'' (GaInt 123)))] \<and>
   auth_default example_world = Inr (''token'', Some ''proj'') \<and>
   main all_flags example_world = main_with_project ''token'' ''proj'' all_flags example_world \<and>
   trace (snd (main all_flags example_world)) =
     [ApiCall (ListTransferConfigs ''projects/proj/locations/eu'' [''scheduled_query'']),
      ApiCall (DeleteTransferConfig ''c1''), ApiCall (DeleteTransferConfig ''c5''),
      ApiCall (CreateTransferConfig ''projects/proj/locations/eu''
                 (requested_config ''proj'' (GaInt 123)))]"
proof -
  have a1: "auth_default env_project_world = Inr (''token'', None)"
    by (simp add: env_project_world_def)
  have e1: "map_of (environ env_project_world) ''GOOGLE_CLOUD_PROJECT'' = Some ''env-proj''"
    by (simp add: env_project_world_def)
  from main_project_id[OF a1, of all_flags] e1
  have m1: "main all_flags env_project_world =
     main_with_project ''token'' ''env-proj'' all_flags
       (emit (EnvLookup ''GOOGLE_CLOUD_PROJECT'') env_project_world)"
    by blast
  have a1': "auth_default (emit (EnvLookup ''GOOGLE_CLOUD_PROJECT'') env_project_world) =
      Inr (''token'', None)"
    by (simp add: env_project_world_def emit_def)
  have t1: "trace (snd (main all_flags env_project_world)) =
     [EnvLookup ''GOOGLE_CLOUD_PROJECT'',
      ApiCall (ListTransferConfigs ''projects/env-proj/locations/eu'' [''scheduled_query'']),
      ApiCall (CreateTransferConfig ''projects/env-proj/locations/eu''
                 (requested_config ''env-proj'' (GaInt 123)))]"
    unfolding m1 all_flags_run[OF a1']
    by (simp add: deploy_all_def deploy_unfold delete_scheduled_query_def common_location_path_def
          list_transfer_configs_def create_transfer_config_def emit_def Let_def
          env_project_world_def example_world_def stored_def deploy_p75_procedure_def
          deploy_cloudrun_alerter_def create_cloudrun_trigger_def)
  have a2: "auth_default example_world = Inr (''token'', Some ''proj'')"
    by (simp add: example_world_def)
  from main_project_id[OF a2, of all_flags]
  have m2: "main all_flags example_world = main_with_project ''token'' ''proj'' all_flags example_world"
    by simp
  have t2: "trace (snd (main all_flags example_world)) =
     [ApiCall (ListTransferConfigs ''projects/proj/locations/eu'' [''scheduled_query'']),
      ApiCall (DeleteTransferConfig ''c1''), ApiCall (DeleteTransferConfig ''c5''),
      ApiCall (CreateTransferConfig ''projects/proj/locations/eu''
                 (requested_config ''proj'' (GaInt 123)))]"
    unfolding m2 all_flags_run[OF a2]
    by (simp add: deploy_all_def deploy_unfold delete_scheduled_query_def common_location_path_def
          list_transfer_configs_def delete_transfer_config_def create_transfer_config_def
          emit_def Let_def example_world_def stored_def deploy_p75_procedure_def
          deploy_cloudrun_alerter_def create_cloudrun_trigger_def)
  from a1 e1 m1 t1 a2 m2 t2 show ?thesis by blast
qed











end
